theory Spec2Isabelle
  imports
    Main
    "HOL-Library.Sublist"
    "HOL-Library.Char_ord"
    "HOL-Library.List_Lexorder"
    "HOL-Library.Multiset"
begin

section \<open>The tile server of maplibre4UAV (titiler/main.py)\<close>

text \<open>
  The module is a set of FastAPI handlers over three collaborators: the file system
  (through \<^verbatim>\<open>pathlib\<close>), the raster reader of rio-tiler and its image encoder.
  The handlers are embedded as HOL functions of a \<open>world\<close> that holds what the
  collaborators answer; every call to the reader is written to a call log, and an
  exception of the reader is a value.
\<close>

subsection \<open>Paths (\<^verbatim>\<open>pathlib.PurePosixPath\<close>)\<close>

type_synonym bytes = string

text \<open>A path is its anchor (empty for a relative path, \<^verbatim>\<open>/\<close> or \<^verbatim>\<open>//\<close>) and its parts.\<close>

datatype path = PurePath (anchor: string) (parts: "string list")

fun split_sep :: "char \<Rightarrow> string \<Rightarrow> string list" where
  "split_sep sep [] = [[]]"
| "split_sep sep (c # cs) =
     (if c = sep then [] # split_sep sep cs
      else (case split_sep sep cs of [] \<Rightarrow> [[c]] | w # ws \<Rightarrow> (c # w) # ws))"

fun join_sep :: "string \<Rightarrow> string list \<Rightarrow> string" where
  "join_sep sep [] = []"
| "join_sep sep [w] = w"
| "join_sep sep (w # v # ws) = w @ sep @ join_sep sep (v # ws)"

definition startswith :: "string \<Rightarrow> string \<Rightarrow> bool" where
  "startswith s p = (take (length p) s = p)"

text \<open>The root of a POSIX path: two leading slashes are kept, three or more are one.\<close>

definition path_root :: "string \<Rightarrow> string" where
  "path_root s =
     (if startswith s ''/'' then
        (if startswith s ''//'' \<and> \<not> startswith s ''///'' then ''//'' else ''/'')
      else [])"

text \<open>\<^verbatim>\<open>Path(s)\<close>: empty components and \<^verbatim>\<open>.\<close> are dropped, \<^verbatim>\<open>..\<close> is kept.\<close>

definition Path :: "string \<Rightarrow> path" where
  "Path s = PurePath (path_root s)
     (filter (\<lambda>c. c \<noteq> [] \<and> c \<noteq> ''.'') (split_sep CHR ''/'' s))"

text \<open>\<^verbatim>\<open>p / s\<close>: an absolute right operand replaces the left one.\<close>

definition truediv :: "path \<Rightarrow> string \<Rightarrow> path" where
  "truediv p s =
     (if path_root s \<noteq> [] then Path s
      else PurePath (anchor p) (parts p @ parts (Path s)))"

definition str :: "path \<Rightarrow> string" where
  "str p = (if anchor p = [] \<and> parts p = [] then ''.''
            else anchor p @ join_sep ''/'' (parts p))"

definition name :: "path \<Rightarrow> string" where
  "name p = (if parts p = [] then [] else last (parts p))"

text \<open>\<^verbatim>\<open>name.rfind('.')\<close>, as \<open>None\<close> where Python gives -1.\<close>

fun rfind_dot :: "string \<Rightarrow> nat option" where
  "rfind_dot [] = None"
| "rfind_dot (c # cs) =
     (case rfind_dot cs of
        Some i \<Rightarrow> Some (Suc i)
      | None \<Rightarrow> if c = CHR ''.'' then Some 0 else None)"

definition stem :: "path \<Rightarrow> string" where
  "stem p =
     (let nm = name p in
      case rfind_dot nm of
        None \<Rightarrow> nm
      | Some i \<Rightarrow> if 0 < i \<and> i + 1 < length nm then take i nm else nm)"

subsection \<open>Exceptions\<close>

text \<open>
  The exceptions the handlers can meet are instances of \<^verbatim>\<open>Exception\<close>; rio-tiler's
  \<^verbatim>\<open>TileOutsideBounds\<close> is the one class the code tells apart. The string is \<^verbatim>\<open>str(e)\<close>.
\<close>

datatype py_exception = TileOutsideBounds string | Exception string

text \<open>\<^verbatim>\<open>p.relative_to(base)\<close> raises ValueError unless \<open>base\<close> is a prefix of \<open>p\<close>.\<close>

definition relative_to :: "path \<Rightarrow> path \<Rightarrow> py_exception + path" where
  "relative_to p base =
     (if anchor p = anchor base \<and> prefix (parts base) (parts p)
      then Inr (PurePath [] (drop (length (parts base)) (parts p)))
      else Inl (Exception ''ValueError''))"

subsection \<open>Shell patterns (\<^verbatim>\<open>fnmatch.translate\<close>)\<close>

text \<open>
  A pattern component is translated to a sequence of items: \<^verbatim>\<open>*\<close> matches any run of
  characters, \<^verbatim>\<open>?\<close> one character, \<^verbatim>\<open>[...]\<close> one character of a class, anything
  else itself. Which characters a bracket expression holds is decided by the regular
  expression engine and is a parameter here (\<open>cls\<close>, from the text between the
  brackets); where the bracket closes is computed as \<^verbatim>\<open>translate\<close> does.
\<close>

datatype pat_item = Star | AnyChar | Lit char | CharClass "char \<Rightarrow> bool"

text \<open>
  The text after an opening bracket: a leading \<^verbatim>\<open>!\<close> and then a leading \<^verbatim>\<open>]\<close> belong
  to the expression, which ends at the next \<^verbatim>\<open>]\<close>. \<open>None\<close> when there is none (the
  bracket is then an ordinary character).
\<close>

definition close_bracket :: "string \<Rightarrow> (string \<times> string) option" where
  "close_bracket pat =
     (let neg = (if startswith pat ''!'' then ''!'' else []);
          p1 = drop (length neg) pat;
          fst_br = (if startswith p1 '']'' then '']'' else []);
          p2 = drop (length fst_br) p1
      in case dropWhile (\<lambda>c. c \<noteq> CHR '']'') p2 of
           [] \<Rightarrow> None
         | _ # rest \<Rightarrow> Some (neg @ fst_br @ takeWhile (\<lambda>c. c \<noteq> CHR '']'') p2, rest))"

lemma close_bracket_shorter:
  "close_bracket pat = Some (stuff, rest) \<Longrightarrow> length rest < Suc (length pat)"
proof -
  assume h: "close_bracket pat = Some (stuff, rest)"
  define neg where "neg = (if startswith pat ''!'' then ''!'' else [])"
  define p1 where "p1 = drop (length neg) pat"
  define fb where "fb = (if startswith p1 '']'' then '']'' else [])"
  define p2 where "p2 = drop (length fb) p1"
  from h obtain c where d: "dropWhile (\<lambda>c. c \<noteq> CHR '']'') p2 = c # rest"
    by (auto simp: close_bracket_def Let_def neg_def p1_def fb_def p2_def split: list.splits)
  have "length (dropWhile (\<lambda>c. c \<noteq> CHR '']'') p2) \<le> length p2"
    by (rule length_dropWhile_le)
  with d have "length rest < length p2" by simp
  moreover have "length p2 \<le> length pat" by (simp add: p2_def p1_def)
  ultimately show ?thesis by simp
qed

function translate :: "(string \<Rightarrow> char \<Rightarrow> bool) \<Rightarrow> string \<Rightarrow> pat_item list" where
  "translate cls [] = []"
| "translate cls (c # pat) =
     (if c = CHR ''*'' then Star # translate cls pat
      else if c = CHR ''?'' then AnyChar # translate cls pat
      else if c = CHR ''['' then
        (case close_bracket pat of
           None \<Rightarrow> Lit c # translate cls pat
         | Some (stuff, rest) \<Rightarrow> CharClass (cls stuff) # translate cls rest)
      else Lit c # translate cls pat)"
  by pat_completeness auto
termination
  by (relation "measure (\<lambda>(cls, pat). length pat)")
     (auto dest: close_bracket_shorter)

text \<open>Matching the whole name (\<^verbatim>\<open>fullmatch\<close>), the dot of the regular expression
  matching every character.\<close>

fun matches :: "pat_item list \<Rightarrow> string \<Rightarrow> bool" where
  "matches [] s = (s = [])"
| "matches (Star # ps) [] = matches ps []"
| "matches (Star # ps) (c # cs) = (matches ps (c # cs) \<or> matches (Star # ps) cs)"
| "matches (AnyChar # ps) [] = False"
| "matches (AnyChar # ps) (c # cs) = matches ps cs"
| "matches (Lit a # ps) [] = False"
| "matches (Lit a # ps) (c # cs) = (a = c \<and> matches ps cs)"
| "matches (CharClass f # ps) [] = False"
| "matches (CharClass f # ps) (c # cs) = (f c \<and> matches ps cs)"

definition fnmatch :: "(string \<Rightarrow> char \<Rightarrow> bool) \<Rightarrow> string \<Rightarrow> string \<Rightarrow> bool" where
  "fnmatch cls pat nm = matches (translate cls pat) nm"

subsection \<open>What the handlers return\<close>

text \<open>
  JSON values. The numbers of a dataset's bounds are of a type \<open>'f\<close> of their own: the
  handlers only add two of them and divide by 2, and both operations are the reader's
  number type's (parameters of the world), so nothing is assumed of floating point.
\<close>

datatype 'f json =
    JNull
  | JInt int
  | JNum 'f
  | JStr string
  | JArr "'f json list"
  | JObj "(string \<times> 'f json) list"

text \<open>\<^verbatim>\<open>fastapi.Response(status_code=200, content=b"", media_type=None, headers=None)\<close>\<close>

record response =
  status_code :: int
  content :: bytes
  media_type :: "string option"
  headers :: "(string \<times> string) list"

text \<open>A handler returns a \<^verbatim>\<open>Response\<close> or a dict, which FastAPI sends as JSON.\<close>

datatype 'f returned = Resp response | Dict "(string \<times> 'f json) list"

subsection \<open>The collaborators\<close>

text \<open>rio-tiler's \<^verbatim>\<open>Info\<close>; \<open>minzoom\<close> and \<open>maxzoom\<close> are \<open>None\<close> when the object has
  no such attribute, \<open>crs\<close> is \<^verbatim>\<open>str(info.crs)\<close>.\<close>

record 'f Info =
  bounds :: "'f \<times> 'f \<times> 'f \<times> 'f"
  crs :: string
  width :: int
  height :: int
  band_metadata :: "'f json"
  band_descriptions :: "'f json"
  dtype :: string
  minzoom :: "int option"
  maxzoom :: "int option"

text \<open>
  The world of one request:
  \<^item> \<open>environ_DATA_DIR\<close>: the environment variable \<^verbatim>\<open>DATA_DIR\<close>, if set;
  \<^item> \<open>fs_exists\<close>: what \<^verbatim>\<open>Path.exists()\<close> does for the path with this \<^verbatim>\<open>str()\<close>: it
    answers, or it raises the \<^verbatim>\<open>OSError\<close> of the underlying \<^verbatim>\<open>stat\<close> when that is none
    of ENOENT, ENOTDIR, EBADF and ELOOP (ENAMETOOLONG for a component over 255 bytes,
    EACCES below a directory that may not be searched);
  \<^item> \<open>fs_walk\<close>: the entries below \<^verbatim>\<open>DATA_DIR\<close> (files and directories at every depth),
    each as its parts relative to \<^verbatim>\<open>DATA_DIR\<close>, in the order in which the recursive
    glob enumerates them; empty when the directory is empty, missing or unreadable;
  \<^item> \<open>fs_walk_error\<close>: the exception that ends the enumeration after the entries of
    \<open>fs_walk\<close>, if any (\<^verbatim>\<open>PermissionError\<close> when \<^verbatim>\<open>DATA_DIR\<close> lies below a directory that may
    not be searched, \<^verbatim>\<open>RecursionError\<close> or \<^verbatim>\<open>OSError\<close> on a very deep tree);
  \<^item> \<open>re_class\<close>: the characters of a bracket expression of a pattern;
  \<^item> \<open>Reader_open\<close>, \<open>Reader_info\<close>, \<open>Reader_tile\<close>, \<open>Image_render\<close>: rio-tiler's
    \<^verbatim>\<open>Reader(path)\<close>, \<^verbatim>\<open>src.info()\<close>, \<^verbatim>\<open>src.tile(x, y, z, tilesize=...)\<close> and
    \<^verbatim>\<open>img.render(img_format=..., quality=...)\<close>, each returning or raising;
  \<^item> \<open>num_add\<close>, \<open>num_div\<close>: \<^verbatim>\<open>+\<close> and \<^verbatim>\<open>/\<close> (by an int) on the numbers of the bounds.
  Symbolic links and changes of the file system during a request are not modelled.
\<close>

record ('s, 'i, 'f) world =
  environ_DATA_DIR :: "string option"
  fs_exists :: "string \<Rightarrow> py_exception + bool"
  fs_walk :: "string list list"
  fs_walk_error :: "py_exception option"
  re_class :: "string \<Rightarrow> char \<Rightarrow> bool"
  Reader_open :: "string \<Rightarrow> py_exception + 's"
  Reader_info :: "'s \<Rightarrow> py_exception + 'f Info"
  Reader_tile :: "'s \<Rightarrow> int \<Rightarrow> int \<Rightarrow> int \<Rightarrow> int \<Rightarrow> py_exception + 'i"
  Image_render :: "'i \<Rightarrow> string \<Rightarrow> int option \<Rightarrow> py_exception + bytes"
  num_add :: "'f \<Rightarrow> 'f \<Rightarrow> 'f"
  num_div :: "'f \<Rightarrow> int \<Rightarrow> 'f"

text \<open>\<^verbatim>\<open>DATA_DIR = Path(os.getenv("DATA_DIR", "/data"))\<close>\<close>

definition DATA_DIR :: "('s, 'i, 'f) world \<Rightarrow> path" where
  "DATA_DIR W = Path (case environ_DATA_DIR W of None \<Rightarrow> ''/data'' | Some v \<Rightarrow> v)"

text \<open>\<^verbatim>\<open>p.exists()\<close>: an answer, or the exception raised.\<close>

definition exists :: "('s, 'i, 'f) world \<Rightarrow> path \<Rightarrow> py_exception + bool" where
  "exists W p = fs_exists W (str p)"

text \<open>
  A generator, run to its end: the items it yields and then the exception that ends it,
  if any.
\<close>

type_synonym 'a iterator = "'a list \<times> py_exception option"

text \<open>\<^verbatim>\<open>'**' in component\<close>\<close>

fun has_double_star :: "string \<Rightarrow> bool" where
  "has_double_star (a # b # cs) = (a = CHR ''*'' \<and> b = CHR ''*'' \<or> has_double_star (b # cs))"
| "has_double_star _ = False"

text \<open>
  \<^verbatim>\<open>base.glob(pattern)\<close> for \<open>base = DATA_DIR\<close>, as in Python 3.12. The pattern is
  parsed like a path. A component that holds \<^verbatim>\<open>**\<close> among other characters is refused
  with \<^verbatim>\<open>ValueError\<close> when the generator is started (so does Python 3.11; 3.13 reads it
  as \<^verbatim>\<open>*\<close>). Every component is matched against the enumerated entries; Python 3.11
  tests a component without wildcard by an existence check of its own instead, which
  differs for an entry that is enumerated and does not exist (a dangling symbolic link),
  and symbolic links are not modelled. Both calls of the module have the
  shape \<^verbatim>\<open>**/c\<close>: every walked entry whose last part matches the component \<open>c\<close>, in walk
  order (with more components after \<^verbatim>\<open>**\<close>, the last parts match them one by one). A
  pattern without \<^verbatim>\<open>**\<close> matches from the base. The enumeration may end with an
  exception.
\<close>

definition glob :: "('s, 'i, 'f) world \<Rightarrow> path \<Rightarrow> string \<Rightarrow> path iterator" where
  "glob W base pattern =
     (if list_ex (\<lambda>c. c \<noteq> ''**'' \<and> has_double_star c) (parts (Path pattern)) then
        ([], Some (Exception ''Invalid pattern: '**' can only be an entire path component''))
      else
        (map (\<lambda>e. PurePath (anchor base) (parts base @ e))
           (case parts (Path pattern) of
              [] \<Rightarrow> []
            | p # ps \<Rightarrow>
                if p = ''**'' then
                  filter (\<lambda>e. length ps \<le> length e \<and>
                      list_all2 (fnmatch (re_class W)) ps (drop (length e - length ps) e))
                    (fs_walk W)
                else filter (list_all2 (fnmatch (re_class W)) (p # ps)) (fs_walk W)),
         fs_walk_error W))"

text \<open>\<^verbatim>\<open>next(iterator, None)\<close>: the first item; without one, the exception that ends the
  generator, or \<open>None\<close>.\<close>

definition next_or_None :: "'a iterator \<Rightarrow> py_exception + 'a option" where
  "next_or_None it =
     (case it of
        (x # _, _) \<Rightarrow> Inr (Some x)
      | ([], Some e) \<Rightarrow> Inl e
      | ([], None) \<Rightarrow> Inr None)"

text \<open>\<^verbatim>\<open>list(iterator)\<close>: all the items, unless the generator ends with an exception.\<close>

definition list_of :: "'a iterator \<Rightarrow> py_exception + 'a list" where
  "list_of it = (case it of (xs, None) \<Rightarrow> Inr xs | (xs, Some e) \<Rightarrow> Inl e)"

subsection \<open>Calls to the reader, logged\<close>

datatype call =
    Open string
  | InfoCall
  | TileCall int int int int
  | RenderCall string "int option"

text \<open>A computation returns the calls it made and a value or the exception raised.\<close>

type_synonym 'a io = "call list \<times> (py_exception + 'a)"

definition ret :: "'a \<Rightarrow> 'a io" where
  "ret a = ([], Inr a)"

definition bind_io :: "'a io \<Rightarrow> ('a \<Rightarrow> 'b io) \<Rightarrow> 'b io" where
  "bind_io m f =
     (case m of
        (l, Inl e) \<Rightarrow> (l, Inl e)
      | (l, Inr a) \<Rightarrow> (case f a of (l', r) \<Rightarrow> (l @ l', r)))"

text \<open>A call to the file system: it may raise, and no call to the reader is logged.\<close>

definition fs :: "py_exception + 'a \<Rightarrow> 'a io" where
  "fs r = ([], r)"

definition Reader :: "('s, 'i, 'f) world \<Rightarrow> string \<Rightarrow> 's io" where
  "Reader W p = ([Open p], Reader_open W p)"

definition info :: "('s, 'i, 'f) world \<Rightarrow> 's \<Rightarrow> 'f Info io" where
  "info W src = ([InfoCall], Reader_info W src)"

definition tile :: "('s, 'i, 'f) world \<Rightarrow> 's \<Rightarrow> int \<Rightarrow> int \<Rightarrow> int \<Rightarrow> int \<Rightarrow> 'i io" where
  "tile W src x y z tilesize = ([TileCall x y z tilesize], Reader_tile W src x y z tilesize)"

definition render :: "('s, 'i, 'f) world \<Rightarrow> 'i \<Rightarrow> string \<Rightarrow> int option \<Rightarrow> bytes io" where
  "render W img img_format quality =
     ([RenderCall img_format quality], Image_render W img img_format quality)"

text \<open>\<^verbatim>\<open>getattr(obj, name, default)\<close> on an attribute that may be absent.\<close>

definition getattr :: "'a option \<Rightarrow> 'a \<Rightarrow> 'a" where
  "getattr v d = (case v of None \<Rightarrow> d | Some a \<Rightarrow> a)"

text \<open>A tuple of four numbers, as FastAPI encodes it.\<close>

definition json_of_tuple :: "'f \<times> 'f \<times> 'f \<times> 'f \<Rightarrow> 'f json" where
  "json_of_tuple b = (case b of (b0, b1, b2, b3) \<Rightarrow> JArr [JNum b0, JNum b1, JNum b2, JNum b3])"

subsection \<open>The handlers\<close>

text \<open>
  A handler returns the calls it made to the reader and what it returns, or the
  exception that leaves it (which FastAPI answers with a 500 of its own).
\<close>

text \<open>\<^verbatim>\<open>GET /health\<close>\<close>

definition health :: "'f returned" where
  "health = Dict [(''status'', JStr ''ok'')]"

text \<open>
  \<^verbatim>\<open>GET /datasets\<close>. The list comprehension over the sorted paths; \<^verbatim>\<open>sorted\<close> is stable,
  as \<open>sort_key\<close> is, and compares the stems as strings. Nothing is caught.
\<close>

fun dataset_entries :: "path \<Rightarrow> path list \<Rightarrow> py_exception + 'f json list" where
  "dataset_entries base [] = Inr []"
| "dataset_entries base (vrt # vrts) =
     (case relative_to vrt base of
        Inl e \<Rightarrow> Inl e
      | Inr rel \<Rightarrow>
          (case dataset_entries base vrts of
             Inl e \<Rightarrow> Inl e
           | Inr ds \<Rightarrow> Inr (JObj [(''name'', JStr (stem vrt)), (''path'', JStr (str rel))] # ds)))"

definition list_datasets :: "('s, 'i, 'f) world \<Rightarrow> py_exception + 'f returned" where
  "list_datasets W =
     (case list_of (glob W (DATA_DIR W) ''**/*.vrt'') of
        Inl e \<Rightarrow> Inl e
      | Inr vrts \<Rightarrow>
          (case dataset_entries (DATA_DIR W) (sort_key stem vrts) of
             Inl e \<Rightarrow> Inl e
           | Inr ds \<Rightarrow> Inr (Dict [(''datasets'', JArr ds)])))"

text \<open>
  \<^verbatim>\<open>GET /datasets/{dataset}/info\<close>. The three metadata handlers have no \<^verbatim>\<open>try\<close>: an
  exception of the file system or of the reader leaves the handler.
\<close>

definition dataset_info :: "('s, 'i, 'f) world \<Rightarrow> string \<Rightarrow> 'f returned io" where
  "dataset_info W dataset =
     (let vrt_path0 = truediv (DATA_DIR W) (dataset @ ''.vrt'');
          not_found = \<lparr>status_code = 404, content = ''Dataset '' @ dataset @ '' not found'',
                        media_type = None, headers = []\<rparr>
      in bind_io (fs (exists W vrt_path0)) (\<lambda>found.
         bind_io
           (if \<not> found
            then fs (next_or_None (glob W (DATA_DIR W) (''**/'' @ dataset @ ''.vrt'')))
            else ret (Some vrt_path0)) (\<lambda>vrt_path.
         case vrt_path of
           None \<Rightarrow> ret (Resp not_found)
         | Some p \<Rightarrow>
             bind_io (fs (exists W p)) (\<lambda>still.
             if \<not> still then ret (Resp not_found)
             else
               bind_io (Reader W (str p)) (\<lambda>src.
               bind_io (info W src) (\<lambda>nfo.
               ret (Dict
                 [(''name'', JStr dataset),
                  (''bounds'', json_of_tuple (bounds nfo)),
                  (''crs'', JStr (crs nfo)),
                  (''width'', JInt (width nfo)),
                  (''height'', JInt (height nfo)),
                  (''band_metadata'', band_metadata nfo),
                  (''band_descriptions'', band_descriptions nfo),
                  (''dtype'', JStr (dtype nfo)),
                  (''minzoom'', JInt (getattr (minzoom nfo) 0)),
                  (''maxzoom'', JInt (getattr (maxzoom nfo) 22))])))))))"

text \<open>\<^verbatim>\<open>GET /datasets/{dataset}/bounds\<close>\<close>

definition dataset_bounds :: "('s, 'i, 'f) world \<Rightarrow> string \<Rightarrow> 'f returned io" where
  "dataset_bounds W dataset =
     (let vrt_path0 = truediv (DATA_DIR W) (dataset @ ''.vrt'');
          not_found = \<lparr>status_code = 404, content = ''Dataset '' @ dataset @ '' not found'',
                        media_type = None, headers = []\<rparr>
      in bind_io (fs (exists W vrt_path0)) (\<lambda>found.
         bind_io
           (if \<not> found
            then fs (next_or_None (glob W (DATA_DIR W) (''**/'' @ dataset @ ''.vrt'')))
            else ret (Some vrt_path0)) (\<lambda>vrt_path.
         case vrt_path of
           None \<Rightarrow> ret (Resp not_found)
         | Some p \<Rightarrow>
             bind_io (fs (exists W p)) (\<lambda>still.
             if \<not> still then ret (Resp not_found)
             else
               bind_io (Reader W (str p)) (\<lambda>src.
               bind_io (info W src) (\<lambda>nfo.
               case bounds nfo of (b0, b1, b2, b3) \<Rightarrow>
               ret (Dict
                 [(''bounds'', JArr [JNum b0, JNum b1, JNum b2, JNum b3]),
                  (''center'', JArr [JNum (num_div W (num_add W b0 b2) 2),
                                     JNum (num_div W (num_add W b1 b3) 2)]),
                  (''minzoom'', JInt (getattr (minzoom nfo) 0)),
                  (''maxzoom'', JInt (getattr (maxzoom nfo) 22))])))))))"

text \<open>\<^verbatim>\<open>GET /datasets/{dataset}/tilejson.json\<close>\<close>

definition tilejson :: "('s, 'i, 'f) world \<Rightarrow> string \<Rightarrow> string \<Rightarrow> 'f returned io" where
  "tilejson W dataset tile_format =
     (let vrt_path0 = truediv (DATA_DIR W) (dataset @ ''.vrt'');
          not_found = \<lparr>status_code = 404, content = ''Dataset '' @ dataset @ '' not found'',
                        media_type = None, headers = []\<rparr>
      in bind_io (fs (exists W vrt_path0)) (\<lambda>found.
         bind_io
           (if \<not> found
            then fs (next_or_None (glob W (DATA_DIR W) (''**/'' @ dataset @ ''.vrt'')))
            else ret (Some vrt_path0)) (\<lambda>vrt_path.
         case vrt_path of
           None \<Rightarrow> ret (Resp not_found)
         | Some p \<Rightarrow>
             bind_io (fs (exists W p)) (\<lambda>still.
             if \<not> still then ret (Resp not_found)
             else
               bind_io (Reader W (str p)) (\<lambda>src.
               bind_io (info W src) (\<lambda>nfo.
               case bounds nfo of (b0, b1, b2, b3) \<Rightarrow>
               ret (Dict
                 [(''tilejson'', JStr ''3.0.0''),
                  (''name'', JStr dataset),
                  (''tiles'', JArr [JStr (''/datasets/'' @ dataset @ ''/tiles/{z}/{x}/{y}.'' @ tile_format)]),
                  (''bounds'', JArr [JNum b0, JNum b1, JNum b2, JNum b3]),
                  (''center'', JArr [JNum (num_div W (num_add W b0 b2) 2),
                                     JNum (num_div W (num_add W b1 b3) 2),
                                     JInt 15]),
                  (''minzoom'', JInt (getattr (minzoom nfo) 0)),
                  (''maxzoom'', JInt (getattr (maxzoom nfo) 22))])))))))"

text \<open>The query parameter \<^verbatim>\<open>tile_format\<close> defaults to \<^verbatim>\<open>png\<close>.\<close>

definition tilejson_request :: "('s, 'i, 'f) world \<Rightarrow> string \<Rightarrow> string option \<Rightarrow> 'f returned io" where
  "tilejson_request W dataset q =
     tilejson W dataset (case q of None \<Rightarrow> ''png'' | Some v \<Rightarrow> v)"

text \<open>
  \<^verbatim>\<open>GET /datasets/{dataset}/tiles/{z}/{x}/{y}.{format}\<close>. The path parameters \<open>z\<close>, \<open>x\<close>
  and \<open>y\<close> are declared \<^verbatim>\<open>int\<close>, with no bound. The \<^verbatim>\<open>try\<close> block is the computation
  under the \<open>case\<close>, its two \<^verbatim>\<open>except\<close> clauses the last two cases; the lines that find
  the file stand before the \<^verbatim>\<open>try\<close>.
\<close>

definition get_tile ::
  "('s, 'i, 'f) world \<Rightarrow> string \<Rightarrow> int \<Rightarrow> int \<Rightarrow> int \<Rightarrow> string \<Rightarrow> response io" where
  "get_tile W dataset z x y format =
     (let vrt_path0 = truediv (DATA_DIR W) (dataset @ ''.vrt'');
          not_found = \<lparr>status_code = 404, content = ''Dataset '' @ dataset @ '' not found'',
                        media_type = None, headers = []\<rparr>
      in bind_io (fs (exists W vrt_path0)) (\<lambda>found.
         bind_io
           (if \<not> found
            then fs (next_or_None (glob W (DATA_DIR W) (''**/'' @ dataset @ ''.vrt'')))
            else ret (Some vrt_path0)) (\<lambda>vrt_path.
         case vrt_path of
           None \<Rightarrow> ret (not_found)
         | Some p \<Rightarrow>
             bind_io (fs (exists W p)) (\<lambda>still.
             if \<not> still then ret (not_found)
             else
               (case
                  bind_io (Reader W (str p)) (\<lambda>src.
                  bind_io (tile W src x y z 256) (\<lambda>img.
                  bind_io
                    (if format = ''png'' then
                       bind_io (render W img ''PNG'' None) (\<lambda>content. ret (content, ''image/png''))
                     else if format \<in> {''jpg'', ''jpeg''} then
                       bind_io (render W img ''JPEG'' (Some 85)) (\<lambda>content. ret (content, ''image/jpeg''))
                     else if format = ''webp'' then
                       bind_io (render W img ''WEBP'' (Some 85)) (\<lambda>content. ret (content, ''image/webp''))
                     else
                       bind_io (render W img ''PNG'' None) (\<lambda>content. ret (content, ''image/png'')))
                    (\<lambda>(content, mtype).
                  ret \<lparr>status_code = 200, content = content, media_type = Some mtype,
                       headers = [(''Cache-Control'', ''public, max-age=3600'')]\<rparr>)))
                of
                  (log, Inr resp) \<Rightarrow> (log, Inr resp)
                | (log, Inl (TileOutsideBounds m)) \<Rightarrow>
                    (log, Inr \<lparr>status_code = 204, content = [], media_type = None, headers = []\<rparr>)
                | (log, Inl (Exception m)) \<Rightarrow>
                    (log, Inr \<lparr>status_code = 500, content = m, media_type = None, headers = []\<rparr>))))))"

text \<open>\<^verbatim>\<open>GET /tiles/{z}/{x}/{y}.{format}?url=...\<close>\<close>

definition get_tile_by_url ::
  "('s, 'i, 'f) world \<Rightarrow> int \<Rightarrow> int \<Rightarrow> int \<Rightarrow> string \<Rightarrow> string \<Rightarrow> response io" where
  "get_tile_by_url W z x y format url =
     (if url = [] then
        ret \<lparr>status_code = 400, content = ''url parameter required'',
             media_type = None, headers = []\<rparr>
      else
        let p = (if startswith url ''/'' then Path url else truediv (DATA_DIR W) url) in
        bind_io (fs (exists W p)) (\<lambda>found.
        if \<not> found then
          ret \<lparr>status_code = 404, content = ''File not found: '' @ url,
               media_type = None, headers = []\<rparr>
        else
               (case
                  bind_io (Reader W (str p)) (\<lambda>src.
                  bind_io (tile W src x y z 256) (\<lambda>img.
                  bind_io
                    (if format = ''png'' then
                       bind_io (render W img ''PNG'' None) (\<lambda>content. ret (content, ''image/png''))
                     else if format \<in> {''jpg'', ''jpeg''} then
                       bind_io (render W img ''JPEG'' (Some 85)) (\<lambda>content. ret (content, ''image/jpeg''))
                     else if format = ''webp'' then
                       bind_io (render W img ''WEBP'' (Some 85)) (\<lambda>content. ret (content, ''image/webp''))
                     else
                       bind_io (render W img ''PNG'' None) (\<lambda>content. ret (content, ''image/png'')))
                    (\<lambda>(content, mtype).
                  ret \<lparr>status_code = 200, content = content, media_type = Some mtype,
                       headers = [(''Cache-Control'', ''public, max-age=3600'')]\<rparr>)))
                of
                  (log, Inr resp) \<Rightarrow> (log, Inr resp)
                | (log, Inl (TileOutsideBounds m)) \<Rightarrow>
                    (log, Inr \<lparr>status_code = 204, content = [], media_type = None, headers = []\<rparr>)
                | (log, Inl (Exception m)) \<Rightarrow>
                    (log, Inr \<lparr>status_code = 500, content = m, media_type = None, headers = []\<rparr>))))"

text \<open>The query parameter \<^verbatim>\<open>url\<close> defaults to the empty string.\<close>

definition get_tile_by_url_request ::
  "('s, 'i, 'f) world \<Rightarrow> int \<Rightarrow> int \<Rightarrow> int \<Rightarrow> string \<Rightarrow> string option \<Rightarrow> response io" where
  "get_tile_by_url_request W z x y format q =
     get_tile_by_url W z x y format (case q of None \<Rightarrow> [] | Some v \<Rightarrow> v)"

section \<open>The specification's side\<close>

text \<open>
  The Dataset Locator as the specification words it (its section 4.1): the exact file
  \<^verbatim>\<open><root>/<name>.vrt\<close> if it exists; otherwise the first entry named
  \<^verbatim>\<open><name>.vrt\<close> of the recursive enumeration, if that exists; otherwise not found. An
  exception of an existence check, or of an enumeration that ends before an entry of that
  name, is the outcome.
\<close>

definition spec_resolve :: "('s, 'i, 'f) world \<Rightarrow> string \<Rightarrow> py_exception + path option" where
  "spec_resolve W n =
     (let exact = truediv (DATA_DIR W) (n @ ''.vrt'') in
      case exists W exact of
        Inl e \<Rightarrow> Inl e
      | Inr True \<Rightarrow> Inr (Some exact)
      | Inr False \<Rightarrow>
          (case filter (\<lambda>e. e \<noteq> [] \<and> last e = n @ ''.vrt'') (fs_walk W) of
             [] \<Rightarrow> (case fs_walk_error W of Some e \<Rightarrow> Inl e | None \<Rightarrow> Inr None)
           | e # _ \<Rightarrow>
               let p = PurePath (anchor (DATA_DIR W)) (parts (DATA_DIR W) @ e) in
               (case exists W p of
                  Inl e \<Rightarrow> Inl e
                | Inr found \<Rightarrow> Inr (if found then Some p else None))))"

text \<open>\<^verbatim>\<open>pathlib\<close>'s test for a pattern component with a shell wildcard.\<close>

definition is_wildcard_pattern :: "string \<Rightarrow> bool" where
  "is_wildcard_pattern pat =
     (CHR ''*'' \<in> set pat \<or> CHR ''?'' \<in> set pat \<or> CHR ''['' \<in> set pat)"

text \<open>The table of output formats of the specification (its section 4.4): for a format
  token, the encoder's format with its quality, and the media type.\<close>

definition format_table :: "string \<Rightarrow> (string \<times> int option) \<times> string" where
  "format_table format =
     (if format = ''png'' then ((''PNG'', None), ''image/png'')
      else if format = ''jpg'' \<or> format = ''jpeg'' then ((''JPEG'', Some 85), ''image/jpeg'')
      else if format = ''webp'' then ((''WEBP'', Some 85), ''image/webp'')
      else ((''PNG'', None), ''image/png''))"

text \<open>
  What opening the file \<open>s\<close>, querying the tile at 256 pixels and encoding it for the
  format token yield: the encoded bytes with their media type, or the first failure.
\<close>

definition tile_pipeline ::
  "('s, 'i, 'f) world \<Rightarrow> string \<Rightarrow> int \<Rightarrow> int \<Rightarrow> int \<Rightarrow> string \<Rightarrow> py_exception + bytes \<times> string" where
  "tile_pipeline W s x y z format =
     (case Reader_open W s of
        Inl e \<Rightarrow> Inl e
      | Inr src \<Rightarrow>
          (case Reader_tile W src x y z 256 of
             Inl e \<Rightarrow> Inl e
           | Inr img \<Rightarrow>
               (case format_table format of
                  ((fmt, q), mtype) \<Rightarrow>
                    (case Image_render W img fmt q of
                       Inl e \<Rightarrow> Inl e
                     | Inr c \<Rightarrow> Inr (c, mtype)))))"

text \<open>The three outcomes of a tile request on a resolved file.\<close>

definition tile_response :: "py_exception + bytes \<times> string \<Rightarrow> response" where
  "tile_response r =
     (case r of
        Inr (c, mtype) \<Rightarrow>
          \<lparr>status_code = 200, content = c, media_type = Some mtype,
           headers = [(''Cache-Control'', ''public, max-age=3600'')]\<rparr>
      | Inl (TileOutsideBounds m) \<Rightarrow>
          \<lparr>status_code = 204, content = [], media_type = None, headers = []\<rparr>
      | Inl (Exception m) \<Rightarrow>
          \<lparr>status_code = 500, content = m, media_type = None, headers = []\<rparr>)"

section \<open>Auxiliary definitions\<close>

text \<open>
  The four name-based handlers begin with the same lines; \<open>locate\<close> names what those
  lines compute: the path the handler goes on with, none (the handler answers 404), or
  the exception that leaves the handler.
\<close>

definition locate :: "('s, 'i, 'f) world \<Rightarrow> string \<Rightarrow> py_exception + path option" where
  "locate W dataset =
     (case exists W (truediv (DATA_DIR W) (dataset @ ''.vrt'')) of
        Inl e \<Rightarrow> Inl e
      | Inr found \<Rightarrow>
          (case (if \<not> found
                 then next_or_None (glob W (DATA_DIR W) (''**/'' @ dataset @ ''.vrt''))
                 else Inr (Some (truediv (DATA_DIR W) (dataset @ ''.vrt'')))) of
             Inl e \<Rightarrow> Inl e
           | Inr None \<Rightarrow> Inr None
           | Inr (Some p) \<Rightarrow>
               (case exists W p of
                  Inl e \<Rightarrow> Inl e
                | Inr still \<Rightarrow> Inr (if \<not> still then None else Some p))))"

text \<open>The calls a \<^verbatim>\<open>try\<close> block of a tile handler makes on the file \<open>s\<close>.\<close>

definition tile_log ::
  "('s, 'i, 'f) world \<Rightarrow> string \<Rightarrow> int \<Rightarrow> int \<Rightarrow> int \<Rightarrow> string \<Rightarrow> call list" where
  "tile_log W s x y z format =
     (case Reader_open W s of
        Inl e \<Rightarrow> [Open s]
      | Inr src \<Rightarrow>
          (case Reader_tile W src x y z 256 of
             Inl e \<Rightarrow> [Open s, TileCall x y z 256]
           | Inr img \<Rightarrow>
               [Open s, TileCall x y z 256,
                RenderCall (fst (fst (format_table format))) (snd (fst (format_table format)))]))"

text \<open>The path the path-based tile handler goes on with, none (it answers 400 or 404), or
  the exception that leaves the handler.\<close>

definition locate_url :: "('s, 'i, 'f) world \<Rightarrow> string \<Rightarrow> py_exception + path option" where
  "locate_url W url =
     (if url = [] then Inr None
      else
        let p = (if startswith url ''/'' then Path url else truediv (DATA_DIR W) url) in
        case exists W p of
          Inl e \<Rightarrow> Inl e
        | Inr found \<Rightarrow> Inr (if \<not> found then None else Some p))"

text \<open>A field of the dict a metadata handler returns.\<close>

definition field :: "string \<Rightarrow> 'f returned io \<Rightarrow> 'f json option" where
  "field k r = (case snd r of Inr (Dict d) \<Rightarrow> map_of d k | _ \<Rightarrow> None)"

text \<open>
  A world to evaluate the handlers in: \<^verbatim>\<open>DATA_DIR\<close> is \<^verbatim>\<open>/data\<close> and holds \<^verbatim>\<open>b.vrt\<close> and
  \<^verbatim>\<open>sub/a.vrt\<close>; \<^verbatim>\<open>/x.vrt\<close> lies beside \<^verbatim>\<open>/data\<close>. As on every POSIX file system, the
  existence check of a path with a component of more than 255 characters raises
  ENAMETOOLONG; the directory \<^verbatim>\<open>/root\<close> may not be searched, so a check below it raises
  EACCES. The enumeration of \<^verbatim>\<open>/data\<close> completes. The reader opens every file; tiles
  at zoom 0 are outside the bounds; the encoder fails on WEBP. Numbers are integers.
\<close>

definition example_world :: "(string, string, int) world" where
  "example_world =
     \<lparr>environ_DATA_DIR = None,
      fs_exists = (\<lambda>s.
          if list_ex (\<lambda>c. 255 < length c) (split_sep CHR ''/'' s)
          then Inl (Exception ''[Errno 36] File name too long'')
          else if startswith s ''/root/''
          then Inl (Exception ''[Errno 13] Permission denied'')
          else Inr (s \<in> {''/data'', ''/data/b.vrt'', ''/data/sub'', ''/data/sub/a.vrt'',
                          ''/x.vrt'', ''/data/../x.vrt''})),
      fs_walk = [[''b.vrt''], [''sub''], [''sub'', ''a.vrt'']],
      fs_walk_error = None,
      re_class = (\<lambda>stuff c. c \<in> set stuff),
      Reader_open = (\<lambda>p. Inr p),
      Reader_info = (\<lambda>src. Inr \<lparr>bounds = (2, 4, 10, 20), crs = ''EPSG:4326'', width = 512,
          height = 256, band_metadata = JArr [], band_descriptions = JArr [],
          dtype = ''uint8'', minzoom = None, maxzoom = Some 18\<rparr>),
      Reader_tile = (\<lambda>src x y z tilesize.
          if z = 0 then Inl (TileOutsideBounds ''Tile 0/0/0 is outside bounds'')
          else Inr (src @ '':tile'')),
      Image_render = (\<lambda>img img_format quality.
          if img_format = ''WEBP'' then Inl (Exception ''encoder error'')
          else Inr (img @ '':'' @ img_format)),
      num_add = (+),
      num_div = (\<lambda>a b. a div b)\<rparr>"

text \<open>The same world with its root below a directory that may not be searched: the
  enumeration yields nothing and ends with \<^verbatim>\<open>PermissionError\<close>.\<close>

definition locked_world :: "(string, string, int) world" where
  "locked_world =
     example_world\<lparr>environ_DATA_DIR := Some ''/root/data'', fs_walk := [],
       fs_walk_error := Some (Exception ''[Errno 13] Permission denied'')\<rparr>"

text \<open>
  What a path denotes once the operating system has resolved its \<^verbatim>\<open>..\<close> parts (without
  symbolic links), and whether it then lies in the tree of a root directory.
\<close>

fun resolve_dots :: "string list \<Rightarrow> string list \<Rightarrow> string list" where
  "resolve_dots acc [] = acc"
| "resolve_dots acc (c # cs) =
     (if c = ''..'' then resolve_dots (butlast acc) cs else resolve_dots (acc @ [c]) cs)"

definition inside :: "path \<Rightarrow> path \<Rightarrow> bool" where
  "inside root p = prefix (resolve_dots [] (parts root)) (resolve_dots [] (parts p))"

text \<open>The enumerated \<^verbatim>\<open>.vrt\<close> entries below \<^verbatim>\<open>DATA_DIR\<close>, in enumeration order.\<close>

definition vrt_files :: "('s, 'i, 'f) world \<Rightarrow> path list" where
  "vrt_files W =
     map (\<lambda>e. PurePath (anchor (DATA_DIR W)) (parts (DATA_DIR W) @ e))
       (filter (\<lambda>e. e \<noteq> [] \<and> suffix ''.vrt'' (last e)) (fs_walk W))"

text \<open>The entry of the listing for one file.\<close>

definition dataset_entry :: "path \<Rightarrow> path \<Rightarrow> 'f json" where
  "dataset_entry base vrt =
     JObj [(''name'', JStr (stem vrt)),
           (''path'', JStr (str (PurePath [] (drop (length (parts base)) (parts vrt)))))]"

section \<open>Lemmas\<close>

subsection \<open>Patterns without wildcards, and the pattern of a dataset name\<close>

lemma translate_plain:
  "\<not> is_wildcard_pattern pat \<Longrightarrow> translate cls pat = map Lit pat"
  by (induction pat) (auto simp: is_wildcard_pattern_def)

lemma matches_Lit: "matches (map Lit pat) s = (s = pat)"
  by (induction pat arbitrary: s) (case_tac s; auto)+

lemma fnmatch_plain:
  "\<not> is_wildcard_pattern pat \<Longrightarrow> fnmatch cls pat nm = (nm = pat)"
  by (simp add: fnmatch_def translate_plain matches_Lit)
lemma split_sep_none: "c \<notin> set s \<Longrightarrow> split_sep c s = [s]"
  by (induction s) auto

lemma split_sep_append:
  "c \<notin> set a \<Longrightarrow> split_sep c (a @ c # s) = a # split_sep c s"
  by (induction a) (auto split: list.splits)

lemma parts_pattern:
  assumes "CHR ''/'' \<notin> set n"
  shows "parts (Path (''**/'' @ n @ ''.vrt'')) = [''**'', n @ ''.vrt'']"
proof -
  have "split_sep CHR ''/'' (''**'' @ CHR ''/'' # (n @ ''.vrt'')) = ''**'' # split_sep CHR ''/'' (n @ ''.vrt'')"
    by (rule split_sep_append) simp
  moreover have "split_sep CHR ''/'' (n @ ''.vrt'') = [n @ ''.vrt'']"
    using assms by (intro split_sep_none) simp
  moreover have "n @ ''.vrt'' \<noteq> ''.''" by (cases n) auto
  ultimately show ?thesis by (simp add: Path_def)
qed

lemma no_double_star: "CHR ''*'' \<notin> set c \<Longrightarrow> \<not> has_double_star c"
  by (induction c rule: has_double_star.induct) auto

lemma last_part_match:
  "(Suc 0 \<le> length e \<and> list_all2 f [q] (drop (length e - Suc 0) e)) = (e \<noteq> [] \<and> f q (last e))"
  for e :: "string list" and f :: "string \<Rightarrow> string \<Rightarrow> bool"
proof (cases e rule: rev_cases)
  case Nil then show ?thesis by simp
next
  case (snoc ys y) then show ?thesis by (simp add: list_all2_Cons1)
qed

lemma glob_name:
  assumes "CHR ''/'' \<notin> set n" and "\<not> is_wildcard_pattern n"
  shows "glob W base (''**/'' @ n @ ''.vrt'') =
    (map (\<lambda>e. PurePath (anchor base) (parts base @ e))
       (filter (\<lambda>e. e \<noteq> [] \<and> fnmatch (re_class W) (n @ ''.vrt'') (last e)) (fs_walk W)),
     fs_walk_error W)"
proof -
  have "CHR ''*'' \<notin> set (n @ ''.vrt'')"
    using assms(2) by (simp add: is_wildcard_pattern_def)
  then have "\<not> has_double_star (n @ ''.vrt'')" by (rule no_double_star)
  then show ?thesis
    unfolding glob_def parts_pattern[OF assms(1)] by (simp add: last_part_match)
qed

subsection \<open>The handlers, unfolded\<close>

lemma bind_io_Inl [simp]: "bind_io (l, Inl e) f = (l, Inl e)"
  by (simp add: bind_io_def)

lemma bind_io_Inr [simp]: "bind_io (l, Inr a) f = (l @ fst (f a), snd (f a))"
  by (simp add: bind_io_def split: prod.splits)

lemma bind_fs: "bind_io (fs r) f = (case r of Inl e \<Rightarrow> ([], Inl e) | Inr a \<Rightarrow> f a)"
  by (cases r) (simp_all add: fs_def)

lemma bind_ret: "bind_io (ret a) f = f a"
  by (simp add: ret_def)

lemma render_choice:
  "(if format = ''png'' then
      bind_io (render W img ''PNG'' None) (\<lambda>content. ret (content, ''image/png''))
    else if format \<in> {''jpg'', ''jpeg''} then
      bind_io (render W img ''JPEG'' (Some 85)) (\<lambda>content. ret (content, ''image/jpeg''))
    else if format = ''webp'' then
      bind_io (render W img ''WEBP'' (Some 85)) (\<lambda>content. ret (content, ''image/webp''))
    else
      bind_io (render W img ''PNG'' None) (\<lambda>content. ret (content, ''image/png''))) =
   ([RenderCall (fst (fst (format_table format))) (snd (fst (format_table format)))],
    case Image_render W img (fst (fst (format_table format))) (snd (fst (format_table format))) of
      Inl e \<Rightarrow> Inl e
    | Inr c \<Rightarrow> Inr (c, snd (format_table format)))"
  by (cases "Image_render W img ''PNG'' None"; cases "Image_render W img ''JPEG'' (Some 85)";
      cases "Image_render W img ''WEBP'' (Some 85)")
     (simp_all add: format_table_def render_def ret_def)

lemma try_block:
  "(case
        bind_io (Reader W s) (\<lambda>src.
        bind_io (tile W src x y z 256) (\<lambda>img.
        bind_io
          (if format = ''png'' then
             bind_io (render W img ''PNG'' None) (\<lambda>content. ret (content, ''image/png''))
           else if format \<in> {''jpg'', ''jpeg''} then
             bind_io (render W img ''JPEG'' (Some 85)) (\<lambda>content. ret (content, ''image/jpeg''))
           else if format = ''webp'' then
             bind_io (render W img ''WEBP'' (Some 85)) (\<lambda>content. ret (content, ''image/webp''))
           else
             bind_io (render W img ''PNG'' None) (\<lambda>content. ret (content, ''image/png'')))
          (\<lambda>(content, mtype).
        ret \<lparr>status_code = 200, content = content, media_type = Some mtype,
             headers = [(''Cache-Control'', ''public, max-age=3600'')]\<rparr>)))
      of
        (log, Inr resp) \<Rightarrow> (log, Inr resp)
      | (log, Inl (TileOutsideBounds m)) \<Rightarrow>
          (log, Inr \<lparr>status_code = 204, content = [], media_type = None, headers = []\<rparr>)
      | (log, Inl (Exception m)) \<Rightarrow>
          (log, Inr \<lparr>status_code = 500, content = m, media_type = None, headers = []\<rparr>)) =
   (tile_log W s x y z format, Inr (tile_response (tile_pipeline W s x y z format)))"
proof (cases "Reader_open W s")
  case (Inl e)
  then show ?thesis
    by (cases e) (simp_all add: Reader_def tile_log_def tile_response_def tile_pipeline_def)
next
  case ro: (Inr src)
  show ?thesis
  proof (cases "Reader_tile W src x y z 256")
    case (Inl e)
    with ro show ?thesis
      by (cases e)
         (simp_all add: Reader_def tile_def tile_log_def tile_response_def tile_pipeline_def)
  next
    case tl: (Inr img)
    obtain fmt q mt where ft: "format_table format = ((fmt, q), mt)"
      by (metis prod.exhaust)
    show ?thesis
    proof (cases "Image_render W img fmt q")
      case (Inl e)
      with ro tl ft show ?thesis
        unfolding render_choice
        by (cases e)
           (simp_all add: Reader_def tile_def tile_log_def tile_response_def tile_pipeline_def)
    next
      case (Inr c)
      with ro tl ft show ?thesis
        unfolding render_choice
        by (simp add: Reader_def tile_def tile_log_def tile_response_def tile_pipeline_def ret_def)
    qed
  qed
qed

lemma resolve_block:
  "(let vrt_path0 = truediv (DATA_DIR W) (dataset @ ''.vrt'');
        not_found = NF
    in bind_io (fs (exists W vrt_path0)) (\<lambda>found.
       bind_io
         (if \<not> found
          then fs (next_or_None (glob W (DATA_DIR W) (''**/'' @ dataset @ ''.vrt'')))
          else ret (Some vrt_path0)) (\<lambda>vrt_path.
       case vrt_path of
         None \<Rightarrow> ret (A not_found)
       | Some p \<Rightarrow>
           bind_io (fs (exists W p)) (\<lambda>still.
           if \<not> still then ret (A not_found)
           else B p)))) =
   (case locate W dataset of
      Inl e \<Rightarrow> ([], Inl e)
    | Inr None \<Rightarrow> ret (A NF)
    | Inr (Some p) \<Rightarrow> B p)"
  by (simp add: locate_def Let_def bind_fs bind_ret split: sum.splits option.splits)

lemma get_tile_unfold:
  "get_tile W dataset z x y format =
     (case locate W dataset of
        Inl e \<Rightarrow> ([], Inl e)
      | Inr None \<Rightarrow>
          ret \<lparr>status_code = 404, content = ''Dataset '' @ dataset @ '' not found'',
               media_type = None, headers = []\<rparr>
      | Inr (Some p) \<Rightarrow>
          (tile_log W (str p) x y z format,
           Inr (tile_response (tile_pipeline W (str p) x y z format))))"
  unfolding get_tile_def try_block resolve_block[where A = "\<lambda>r. r"] by (rule refl)

lemma get_tile_by_url_unfold:
  "get_tile_by_url W z x y format url =
     (if url = [] then
        ret \<lparr>status_code = 400, content = ''url parameter required'',
             media_type = None, headers = []\<rparr>
      else
        (case locate_url W url of
           Inl e \<Rightarrow> ([], Inl e)
         | Inr None \<Rightarrow>
             ret \<lparr>status_code = 404, content = ''File not found: '' @ url,
                  media_type = None, headers = []\<rparr>
         | Inr (Some p) \<Rightarrow>
             (tile_log W (str p) x y z format,
              Inr (tile_response (tile_pipeline W (str p) x y z format)))))"
  unfolding get_tile_by_url_def try_block
  by (simp add: locate_url_def Let_def bind_fs split: sum.splits)

lemma bind_Reader_log:
  "\<exists>l r. bind_io (Reader W s) f = (Open s # l, r)"
  by (cases "Reader_open W s"; cases "f (projr (Reader_open W s))")
     (auto simp: bind_io_def Reader_def)

lemma take1_log:
  "take (Suc 0) (fst (bind_io (Reader W s) f)) = [Open s]"
  using bind_Reader_log[of W s f] by auto

lemma info_block:
  "Reader_open W s = Inr src \<Longrightarrow> Reader_info W src = Inr nfo \<Longrightarrow>
   bind_io (Reader W s) (\<lambda>src. bind_io (info W src) k) =
     ([Open s, InfoCall] @ fst (k nfo), snd (k nfo))"
  by (simp add: Reader_def info_def)

lemma tile_handlers_located:
  assumes "locate W dataset = Inr (Some p) \<and> out = get_tile W dataset z x y format \<or>
           locate_url W url = Inr (Some p) \<and> out = get_tile_by_url W z x y format url"
  shows "out = (tile_log W (str p) x y z format,
                Inr (tile_response (tile_pipeline W (str p) x y z format)))"
proof -
  have "locate_url W url = Inr (Some p) \<Longrightarrow> url \<noteq> []"
    by (auto simp: locate_url_def)
  with assms show ?thesis
    by (auto simp: get_tile_unfold get_tile_by_url_unfold)
qed

lemma locate_plain:
  assumes "\<not> is_wildcard_pattern n" and "CHR ''/'' \<notin> set n"
  shows "locate W n = spec_resolve W n"
proof -
  have np: "\<not> is_wildcard_pattern (n @ ''.vrt'')"
    using assms(1) by (simp add: is_wildcard_pattern_def)
  show ?thesis
    unfolding locate_def spec_resolve_def glob_name[OF assms(2,1)] fnmatch_plain[OF np]
    by (simp add: next_or_None_def Let_def split: sum.splits list.splits option.splits)
qed

subsection \<open>The example world, evaluated\<close>

lemma example_a: "locate example_world ''a'' = Inr (Some (PurePath ''/'' [''data'', ''sub'', ''a.vrt'']))"
  by code_simp

lemma example_spec_a: "spec_resolve example_world ''a'' = Inr (Some (PurePath ''/'' [''data'', ''sub'', ''a.vrt'']))"
  by code_simp

lemma example_spec_c: "spec_resolve example_world ''c'' = Inr None"
  by code_simp

lemma example_spec_locked:
  "spec_resolve locked_world ''a'' = Inl (Exception ''[Errno 13] Permission denied'')"
  by code_simp

lemma example_url_a: "locate_url example_world ''sub/a.vrt'' = Inr (Some (PurePath ''/'' [''data'', ''sub'', ''a.vrt'']))"
  by code_simp

lemma str_a: "str (PurePath ''/'' [''data'', ''sub'', ''a.vrt'']) = ''/data/sub/a.vrt''"
  by code_simp

lemma plain_a: "\<not> is_wildcard_pattern ''a''" "CHR ''/'' \<notin> set ''a''"
  "\<not> is_wildcard_pattern ''c''" "CHR ''/'' \<notin> set ''c''"
  by (simp_all add: is_wildcard_pattern_def)

lemma example_b: "locate example_world ''b'' = Inr (Some (PurePath ''/'' [''data'', ''b.vrt'']))"
  by code_simp

lemma str_b: "str (PurePath ''/'' [''data'', ''b.vrt'']) = ''/data/b.vrt''"
  by code_simp

lemma example_pipeline_zoom0:
  "tile_pipeline example_world ''/data/sub/a.vrt'' 0 0 0 ''png'' =
     Inl (TileOutsideBounds ''Tile 0/0/0 is outside bounds'')"
  by code_simp

lemma example_pipeline_webp:
  "tile_pipeline example_world ''/data/sub/a.vrt'' 0 0 1 ''webp'' = Inl (Exception ''encoder error'')"
  by code_simp

lemma example_pipeline_jpg:
  "tile_pipeline example_world ''/data/sub/a.vrt'' 0 0 1 ''jpg'' =
     Inr (''/data/sub/a.vrt:tile:JPEG'', ''image/jpeg'')"
  by code_simp

lemma example_pipeline_bmp:
  "tile_pipeline example_world ''/data/sub/a.vrt'' 3 5 7 ''bmp'' =
     Inr (''/data/sub/a.vrt:tile:PNG'', ''image/png'')"
  by code_simp

lemma example_open_a: "Reader_open example_world ''/data/sub/a.vrt'' = Inr ''/data/sub/a.vrt''"
  by code_simp

lemma example_listing:
  "list_datasets example_world =
     Inr (Dict [(''datasets'', JArr
       [JObj [(''name'', JStr ''a''), (''path'', JStr ''sub/a.vrt'')],
        JObj [(''name'', JStr ''b''), (''path'', JStr ''b.vrt'')]])])"
  by code_simp

lemma example_distinct: "distinct (map stem (vrt_files example_world))"
  by code_simp

lemma example_info_b:
  "Reader_info example_world ''/data/b.vrt'' =
     Inr \<lparr>bounds = (2, 4, 10, 20), crs = ''EPSG:4326'', width = 512,
          height = 256, band_metadata = JArr [], band_descriptions = JArr [],
          dtype = ''uint8'', minzoom = None, maxzoom = Some 18\<rparr>"
  by (simp add: example_world_def)

lemma example_open_b: "Reader_open example_world ''/data/b.vrt'' = Inr ''/data/b.vrt''"
  by code_simp

lemma example_center:
  "num_div example_world (num_add example_world 2 10) 2 = 6"
  "num_div example_world (num_add example_world 4 20) 2 = 12"
  by (simp_all add: example_world_def)

subsection \<open>Joining a relative path\<close>

lemma truediv_relative:
  "\<not> startswith url ''/'' \<Longrightarrow>
   truediv base url = PurePath (anchor base) (parts base @ parts (Path url))"
  by (simp add: truediv_def path_root_def)

subsection \<open>The listing\<close>

lemma matches_Star_Lit: "matches (Star # map Lit t) s = suffix t s"
  by (induction s) (auto simp: matches_Lit suffix_Cons)

lemma fnmatch_vrt: "fnmatch cls ''*.vrt'' nm = suffix ''.vrt'' nm"
  using matches_Star_Lit[of "''.vrt''" nm] by (simp add: fnmatch_def)

lemma glob_all_vrt: "glob W (DATA_DIR W) ''**/*.vrt'' = (vrt_files W, fs_walk_error W)"
proof -
  have p: "parts (Path ''**/*.vrt'') = [''**'', ''*.vrt'']"
    by (simp add: Path_def)
  show ?thesis
    unfolding glob_def vrt_files_def p by (simp add: last_part_match fnmatch_vrt)
qed

lemma dataset_entries_under:
  "list_all (\<lambda>v. anchor v = anchor base \<and> prefix (parts base) (parts v)) vs \<Longrightarrow>
   dataset_entries base vs = Inr (map (dataset_entry base) vs)"
  by (induction vs) (auto simp: relative_to_def dataset_entry_def)

lemma vrt_files_under:
  "list_all (\<lambda>v. anchor v = anchor (DATA_DIR W) \<and> prefix (parts (DATA_DIR W)) (parts v))
     (vrt_files W)"
  by (simp add: vrt_files_def list_all_iff)

lemma list_datasets_unfold:
  "list_datasets W =
     (case fs_walk_error W of
        Some e \<Rightarrow> Inl e
      | None \<Rightarrow>
          Inr (Dict [(''datasets'',
            JArr (map (dataset_entry (DATA_DIR W)) (sort_key stem (vrt_files W))))]))"
proof -
  have "list_all (\<lambda>v. anchor v = anchor (DATA_DIR W) \<and> prefix (parts (DATA_DIR W)) (parts v))
          (sort_key stem (vrt_files W))"
    using vrt_files_under[of W] by (simp add: list_all_iff)
  then show ?thesis
    by (simp add: list_datasets_def glob_all_vrt list_of_def dataset_entries_under
          split: option.splits)
qed

lemma filter_key_distinct:
  "distinct (map f zs) \<Longrightarrow> k \<in> set zs \<Longrightarrow> filter (\<lambda>x. f k = f x) zs = [k]"
proof (induction zs)
  case Nil
  then show ?case by simp
next
  case (Cons a zs)
  show ?case
  proof (cases "k = a")
    case True
    have "filter (\<lambda>x. f a = f x) zs = []"
      using Cons.prems(1) by (auto simp: filter_empty_conv)
    with True show ?thesis by simp
  next
    case False
    with Cons.prems have kz: "k \<in> set zs" by simp
    then have "f k \<in> f ` set zs" by (rule imageI)
    moreover have "f a \<notin> f ` set zs" using Cons.prems(1) by simp
    ultimately have "f k \<noteq> f a" by metis
    with Cons kz show ?thesis by simp
  qed
qed

lemma sort_key_determined:
  assumes "mset xs = mset ys" and "distinct (map f ys)"
  shows "sort_key f xs = sort_key f ys"
proof (rule properties_for_sort_key)
  show "mset (sort_key f ys) = mset xs" using assms(1) by simp
  show "sorted (map f (sort_key f ys))" by simp
  fix k assume "k \<in> set (sort_key f ys)"
  then have ky: "k \<in> set ys" by simp
  then have kx: "k \<in> set xs" using assms(1) by (metis mset_eq_setD)
  have "mset (map f xs) = mset (map f ys)" using assms(1) by (metis mset_map)
  then have dx: "distinct (map f xs)" using assms(2) by (metis mset_eq_imp_distinct_iff)
  have "filter (\<lambda>x. f k = f x) (sort_key f ys) = filter (\<lambda>x. f k = f x) ys"
    using sort_key_stable[of f "f k" ys] by (simp add: eq_commute[of "f k"])
  then show "filter (\<lambda>x. f k = f x) (sort_key f ys) = filter (\<lambda>x. f k = f x) xs"
    by (simp add: filter_key_distinct[OF assms(2) ky] filter_key_distinct[OF dx kx])
qed

lemma vrt_files_mset:
  "mset walk' = mset (fs_walk W) \<Longrightarrow> mset (vrt_files (W\<lparr>fs_walk := walk'\<rparr>)) = mset (vrt_files W)"
  by (simp add: vrt_files_def DATA_DIR_def)

section \<open>The claims\<close>

text \<open>
  C1 (as amended). For every dataset name without a shell wildcard (\<^verbatim>\<open>*\<close>, \<^verbatim>\<open>?\<close>, \<^verbatim>\<open>[\<close>;
  a path parameter holds no \<^verbatim>\<open>/\<close>), each of the four name-based handlers resolves the
  name as the specification's locator does: the exact file under the root if it exists,
  otherwise the first entry of that name in the recursive enumeration. When an existence
  check or the enumeration raises, the exception leaves the handler, which catches
  nothing there. When the checks complete and yield no existing file, the handler returns
  the 404 response whose body holds the name; otherwise its first call opens the file
  found.
\<close>

theorem locator_plain_names:
  assumes "\<not> is_wildcard_pattern dataset" and "CHR ''/'' \<notin> set dataset"
  shows "case spec_resolve W dataset of
      Inl e \<Rightarrow>
        dataset_info W dataset = ([], Inl e) \<and>
        dataset_bounds W dataset = ([], Inl e) \<and>
        tilejson W dataset tile_format = ([], Inl e) \<and>
        get_tile W dataset z x y format = ([], Inl e)
    | Inr None \<Rightarrow>
        (let not_found = \<lparr>status_code = 404, content = ''Dataset '' @ dataset @ '' not found'',
                           media_type = None, headers = []\<rparr>
         in dataset_info W dataset = ([], Inr (Resp not_found)) \<and>
            dataset_bounds W dataset = ([], Inr (Resp not_found)) \<and>
            tilejson W dataset tile_format = ([], Inr (Resp not_found)) \<and>
            get_tile W dataset z x y format = ([], Inr not_found) \<and>
            sublist dataset (content not_found))
    | Inr (Some p) \<Rightarrow>
        take 1 (fst (dataset_info W dataset)) = [Open (str p)] \<and>
        take 1 (fst (dataset_bounds W dataset)) = [Open (str p)] \<and>
        take 1 (fst (tilejson W dataset tile_format)) = [Open (str p)] \<and>
        take 1 (fst (get_tile W dataset z x y format)) = [Open (str p)]"
proof (cases "spec_resolve W dataset")
  case (Inl e)
  then have l: "locate W dataset = Inl e" using locate_plain[OF assms, of W] by simp
  with Inl show ?thesis
    unfolding dataset_info_def dataset_bounds_def tilejson_def get_tile_unfold resolve_block
    by simp
next
  case (Inr r)
  show ?thesis
  proof (cases r)
    case None
    with Inr have l: "locate W dataset = Inr None" using locate_plain[OF assms, of W] by simp
    have "sublist dataset (''Dataset '' @ dataset @ '' not found'')"
      by (rule sublist_appendI)
    with None Inr l show ?thesis
      unfolding dataset_info_def dataset_bounds_def tilejson_def get_tile_unfold resolve_block
      by (simp add: ret_def)
  next
    case (Some p)
    with Inr have l: "locate W dataset = Inr (Some p)"
      using locate_plain[OF assms, of W] by simp
    have "take (Suc 0) (tile_log W s x y z format) = [Open s]" for s
      by (simp add: tile_log_def split: sum.splits)
    with Some Inr l show ?thesis
      unfolding dataset_info_def dataset_bounds_def tilejson_def get_tile_unfold resolve_block
      by (simp add: take1_log)
  qed
qed

text \<open>Witness: in the example world \<^verbatim>\<open>a\<close> is found by the search and \<^verbatim>\<open>c\<close> is not found;
  below a directory that may not be searched the existence check raises and the
  exception leaves the handler.\<close>

theorem locator_plain_names_witness:
  "\<not> is_wildcard_pattern ''a'' \<and> CHR ''/'' \<notin> set ''a'' \<and>
   spec_resolve example_world ''a'' = Inr (Some (PurePath ''/'' [''data'', ''sub'', ''a.vrt''])) \<and>
   take 1 (fst (dataset_info example_world ''a'')) = [Open ''/data/sub/a.vrt''] \<and>
   take 1 (fst (get_tile example_world ''a'' 1 0 0 ''png'')) = [Open ''/data/sub/a.vrt''] \<and>
   spec_resolve example_world ''c'' = Inr None \<and>
   get_tile example_world ''c'' 1 0 0 ''png'' =
     ([], Inr \<lparr>status_code = 404, content = ''Dataset c not found'', media_type = None,
               headers = []\<rparr>) \<and>
   spec_resolve locked_world ''a'' = Inl (Exception ''[Errno 13] Permission denied'') \<and>
   dataset_info locked_world ''a'' = ([], Inl (Exception ''[Errno 13] Permission denied''))"
  using locator_plain_names[OF plain_a(1,2), of example_world "''png''" 1 0 0 "''png''"]
    locator_plain_names[OF plain_a(3,4), of example_world "''png''" 1 0 0 "''png''"]
    locator_plain_names[OF plain_a(1,2), of locked_world "''png''" 1 0 0 "''png''"]
  by (simp add: example_spec_a example_spec_c example_spec_locked str_a plain_a Let_def)

text \<open>
  Counterexample to C1 as stated. The name \<^verbatim>\<open>*\<close>: no file is named \<^verbatim>\<open>*.vrt\<close>, but the
  pattern \<^verbatim>\<open>**/*.vrt\<close> of the handler matches \<^verbatim>\<open>b.vrt\<close>, which the handlers open and
  serve. And a name of 252 letters: no entry of that name is enumerated, but the first
  existence check raises ENAMETOOLONG and the handler fails instead of answering 404.
\<close>

theorem locator_wildcard_name_counterexample:
  "filter (\<lambda>e. e \<noteq> [] \<and> last e = ''*.vrt'') (fs_walk example_world) = [] \<and>
   exists example_world (truediv (DATA_DIR example_world) ''*.vrt'') = Inr False \<and>
   fst (dataset_info example_world ''*'') = [Open ''/data/b.vrt'', InfoCall] \<and>
   get_tile example_world ''*'' 1 0 0 ''png'' =
     ([Open ''/data/b.vrt'', TileCall 0 0 1 256, RenderCall ''PNG'' None],
      Inr \<lparr>status_code = 200, content = ''/data/b.vrt:tile:PNG'', media_type = Some ''image/png'',
           headers = [(''Cache-Control'', ''public, max-age=3600'')]\<rparr>) \<and>
   filter (\<lambda>e. e \<noteq> [] \<and> last e = replicate 252 CHR ''a'' @ ''.vrt'') (fs_walk example_world) = [] \<and>
   dataset_info example_world (replicate 252 CHR ''a'') =
     ([], Inl (Exception ''[Errno 36] File name too long'')) \<and>
   get_tile example_world (replicate 252 CHR ''a'') 1 0 0 ''png'' =
     ([], Inl (Exception ''[Errno 36] File name too long''))"
  by (intro conjI; code_simp)

text \<open>
  C2. A tile request on either tile endpoint whose dataset or path resolves to \<open>p\<close> has
  one of three outcomes, decided by what opening \<open>p\<close>, querying the tile and encoding it
  yield: when a step signals \<^verbatim>\<open>TileOutsideBounds\<close> the response is 204 with an empty body;
  when a step fails with any other exception the response is 500 with the exception's
  message as body; otherwise it is 200 with the encoded bytes. The datatype of
  exceptions keeps the out-of-bounds signal apart from every other failure, as the order
  of the two \<^verbatim>\<open>except\<close> clauses does.
\<close>

theorem tile_tri_state:
  assumes "locate W dataset = Inr (Some p) \<and> out = get_tile W dataset z x y format \<or>
           locate_url W url = Inr (Some p) \<and> out = get_tile_by_url W z x y format url"
  shows "case tile_pipeline W (str p) x y z format of
           Inl (TileOutsideBounds m) \<Rightarrow>
             snd out = Inr \<lparr>status_code = 204, content = [], media_type = None, headers = []\<rparr>
         | Inl (Exception m) \<Rightarrow>
             snd out = Inr \<lparr>status_code = 500, content = m, media_type = None, headers = []\<rparr>
         | Inr (c, mtype) \<Rightarrow>
             snd out = Inr \<lparr>status_code = 200, content = c, media_type = Some mtype,
                            headers = [(''Cache-Control'', ''public, max-age=3600'')]\<rparr>"
  unfolding tile_handlers_located[OF assms]
  by (simp add: tile_response_def split: sum.splits py_exception.splits prod.splits)

text \<open>Witness: zoom 0 is out of bounds (204), the WEBP encoder fails (500), JPEG succeeds.\<close>

theorem tile_tri_state_witness:
  "locate example_world ''a'' = Inr (Some (PurePath ''/'' [''data'', ''sub'', ''a.vrt''])) \<and>
   snd (get_tile example_world ''a'' 0 0 0 ''png'') =
     Inr \<lparr>status_code = 204, content = [], media_type = None, headers = []\<rparr> \<and>
   snd (get_tile example_world ''a'' 1 0 0 ''webp'') =
     Inr \<lparr>status_code = 500, content = ''encoder error'', media_type = None, headers = []\<rparr> \<and>
   snd (get_tile example_world ''a'' 1 0 0 ''jpg'') =
     Inr \<lparr>status_code = 200, content = ''/data/sub/a.vrt:tile:JPEG'',
          media_type = Some ''image/jpeg'',
          headers = [(''Cache-Control'', ''public, max-age=3600'')]\<rparr> \<and>
   locate_url example_world ''sub/a.vrt'' = Inr (Some (PurePath ''/'' [''data'', ''sub'', ''a.vrt''])) \<and>
   snd (get_tile_by_url example_world 0 0 0 ''png'' ''sub/a.vrt'') =
     Inr \<lparr>status_code = 204, content = [], media_type = None, headers = []\<rparr>"
  using
    tile_tri_state[of example_world "''a''" "PurePath ''/'' [''data'', ''sub'', ''a.vrt'']" "get_tile example_world ''a'' 0 0 0 ''png''" 0 0 0 "''png''" "[]"]
    tile_tri_state[of example_world "''a''" "PurePath ''/'' [''data'', ''sub'', ''a.vrt'']" "get_tile example_world ''a'' 1 0 0 ''webp''" 1 0 0 "''webp''" "[]"]
    tile_tri_state[of example_world "''a''" "PurePath ''/'' [''data'', ''sub'', ''a.vrt'']" "get_tile example_world ''a'' 1 0 0 ''jpg''" 1 0 0 "''jpg''" "[]"]
    tile_tri_state[of example_world "[]" "PurePath ''/'' [''data'', ''sub'', ''a.vrt'']" "get_tile_by_url example_world 0 0 0 ''png'' ''sub/a.vrt''" 0 0 0 "''png''" "''sub/a.vrt''"]
  by (simp add: example_a example_url_a str_a example_pipeline_zoom0 example_pipeline_webp
        example_pipeline_jpg)

text \<open>
  C3. When opening, querying and encoding succeed, either tile endpoint has called the
  encoder with the format and quality of the specification's table for the format token
  (\<^verbatim>\<open>png\<close>: PNG; \<^verbatim>\<open>jpg\<close>, \<^verbatim>\<open>jpeg\<close>: JPEG at quality 85; \<^verbatim>\<open>webp\<close>: WEBP at quality 85;
  anything else: PNG) and answers 200 with the encoded bytes, the table's media type and
  the header \<^verbatim>\<open>Cache-Control: public, max-age=3600\<close>.
\<close>

theorem tile_format_selection:
  assumes "locate W dataset = Inr (Some p) \<and> out = get_tile W dataset z x y format \<or>
           locate_url W url = Inr (Some p) \<and> out = get_tile_by_url W z x y format url"
      and "tile_pipeline W (str p) x y z format = Inr (c, mt)"
  shows "case format_table format of
           ((fmt, q), mtype) \<Rightarrow>
             mt = mtype \<and>
             out = ([Open (str p), TileCall x y z 256, RenderCall fmt q],
                    Inr \<lparr>status_code = 200, content = c, media_type = Some mtype,
                         headers = [(''Cache-Control'', ''public, max-age=3600'')]\<rparr>)"
  unfolding tile_handlers_located[OF assms(1)] assms(2)
  using assms(2)
  by (auto simp: tile_response_def tile_log_def tile_pipeline_def split: sum.splits prod.splits)

text \<open>Witness: \<^verbatim>\<open>jpg\<close> by name, and the unknown token \<^verbatim>\<open>bmp\<close> by path.\<close>

theorem tile_format_selection_witness:
  "locate example_world ''a'' = Inr (Some (PurePath ''/'' [''data'', ''sub'', ''a.vrt''])) \<and>
   tile_pipeline example_world ''/data/sub/a.vrt'' 0 0 1 ''jpg'' =
     Inr (''/data/sub/a.vrt:tile:JPEG'', ''image/jpeg'') \<and>
   get_tile example_world ''a'' 1 0 0 ''jpg'' =
     ([Open ''/data/sub/a.vrt'', TileCall 0 0 1 256, RenderCall ''JPEG'' (Some 85)],
      Inr \<lparr>status_code = 200, content = ''/data/sub/a.vrt:tile:JPEG'', media_type = Some ''image/jpeg'',
           headers = [(''Cache-Control'', ''public, max-age=3600'')]\<rparr>) \<and>
   locate_url example_world ''sub/a.vrt'' = Inr (Some (PurePath ''/'' [''data'', ''sub'', ''a.vrt''])) \<and>
   get_tile_by_url example_world 7 3 5 ''bmp'' ''sub/a.vrt'' =
     ([Open ''/data/sub/a.vrt'', TileCall 3 5 7 256, RenderCall ''PNG'' None],
      Inr \<lparr>status_code = 200, content = ''/data/sub/a.vrt:tile:PNG'', media_type = Some ''image/png'',
           headers = [(''Cache-Control'', ''public, max-age=3600'')]\<rparr>)"
  using
    tile_format_selection[of example_world "''a''" "PurePath ''/'' [''data'', ''sub'', ''a.vrt'']" "get_tile example_world ''a'' 1 0 0 ''jpg''" 1 0 0 "''jpg''" "[]"
      "''/data/sub/a.vrt:tile:JPEG''" "''image/jpeg''"]
    tile_format_selection[of example_world "[]" "PurePath ''/'' [''data'', ''sub'', ''a.vrt'']" "get_tile_by_url example_world 7 3 5 ''bmp'' ''sub/a.vrt''" 7 3 5 "''bmp''"
      "''sub/a.vrt''" "''/data/sub/a.vrt:tile:PNG''" "''image/png''"]
  by (simp add: example_a example_url_a str_a example_pipeline_jpg example_pipeline_bmp
        format_table_def)

text \<open>
  C4 (as amended). The path-based tile endpoint answers 400 when the \<^verbatim>\<open>url\<close> parameter is
  missing or empty. Otherwise the file is \<^verbatim>\<open>Path(url)\<close> for a url with a leading \<^verbatim>\<open>/\<close> and
  the url's parts appended to those of the root directory for any other url. When the
  existence check of that file raises, the exception leaves the handler (the check stands
  before the \<^verbatim>\<open>try\<close>); when it answers that the file does not exist the answer is 404
  with a body that holds the url; when it answers that the file exists the handler's
  first call opens it.
\<close>

theorem url_endpoint_resolution:
  "case q of
     None \<Rightarrow>
       get_tile_by_url_request W z x y format q =
         ([], Inr \<lparr>status_code = 400, content = ''url parameter required'',
                   media_type = None, headers = []\<rparr>)
   | Some url \<Rightarrow>
       if url = [] then
         get_tile_by_url_request W z x y format q =
           ([], Inr \<lparr>status_code = 400, content = ''url parameter required'',
                     media_type = None, headers = []\<rparr>)
       else
         let p = (if startswith url ''/'' then Path url
                  else PurePath (anchor (DATA_DIR W)) (parts (DATA_DIR W) @ parts (Path url)))
         in case fs_exists W (str p) of
              Inl e \<Rightarrow> get_tile_by_url_request W z x y format q = ([], Inl e)
            | Inr found \<Rightarrow>
                if found then
                  take 1 (fst (get_tile_by_url_request W z x y format q)) = [Open (str p)]
                else
                  get_tile_by_url_request W z x y format q =
                    ([], Inr \<lparr>status_code = 404, content = ''File not found: '' @ url,
                              media_type = None, headers = []\<rparr>) \<and>
                  sublist url (''File not found: '' @ url)"
proof (cases q)
  case None
  then show ?thesis
    by (simp add: get_tile_by_url_request_def get_tile_by_url_unfold ret_def)
next
  case (Some url)
  have sub: "sublist url (''File not found: '' @ url)"
    using sublist_appendI[of url "''File not found: ''" "[]"] by simp
  have lg: "take (Suc 0) (tile_log W s x y z format) = [Open s]" for s
    by (simp add: tile_log_def split: sum.splits)
  show ?thesis
  proof (cases "startswith url ''/''")
    case True
    with Some sub lg show ?thesis
      by (simp add: get_tile_by_url_request_def get_tile_by_url_unfold locate_url_def
            exists_def Let_def ret_def split: sum.splits)
  next
    case False
    with Some sub lg show ?thesis
      by (simp add: get_tile_by_url_request_def get_tile_by_url_unfold locate_url_def
            exists_def Let_def ret_def truediv_relative[OF False] split: sum.splits)
  qed
qed

text \<open>Evaluation in the example world: no url, an empty url, a missing file, a relative
  and an absolute url, and a url below a directory that may not be searched.\<close>

theorem url_endpoint_resolution_witness:
  "get_tile_by_url_request example_world 1 0 0 ''png'' None =
     ([], Inr \<lparr>status_code = 400, content = ''url parameter required'',
               media_type = None, headers = []\<rparr>) \<and>
   get_tile_by_url_request example_world 1 0 0 ''png'' (Some []) =
     ([], Inr \<lparr>status_code = 400, content = ''url parameter required'',
               media_type = None, headers = []\<rparr>) \<and>
   get_tile_by_url_request example_world 1 0 0 ''png'' (Some ''nowhere.vrt'') =
     ([], Inr \<lparr>status_code = 404, content = ''File not found: nowhere.vrt'',
               media_type = None, headers = []\<rparr>) \<and>
   take 1 (fst (get_tile_by_url_request example_world 1 0 0 ''png'' (Some ''sub/a.vrt''))) =
     [Open ''/data/sub/a.vrt''] \<and>
   take 1 (fst (get_tile_by_url_request example_world 1 0 0 ''png'' (Some ''/data/b.vrt''))) =
     [Open ''/data/b.vrt''] \<and>
   get_tile_by_url_request example_world 1 0 0 ''png'' (Some ''/root/x.vrt'') =
     ([], Inl (Exception ''[Errno 13] Permission denied''))"
  using
    url_endpoint_resolution[where q="None" and W=example_world and z=1 and x=0 and y=0 and format="''png''"]
    url_endpoint_resolution[where q="Some []" and W=example_world and z=1 and x=0 and y=0 and format="''png''"]
    url_endpoint_resolution[where q="Some ''nowhere.vrt''" and W=example_world and z=1 and x=0 and y=0 and format="''png''"]
    url_endpoint_resolution[where q="Some ''sub/a.vrt''" and W=example_world and z=1 and x=0 and y=0 and format="''png''"]
    url_endpoint_resolution[where q="Some ''/data/b.vrt''" and W=example_world and z=1 and x=0 and y=0 and format="''png''"]
    url_endpoint_resolution[where q="Some ''/root/x.vrt''" and W=example_world and z=1 and x=0 and y=0 and format="''png''"]
  by (simp add: example_world_def DATA_DIR_def Path_def path_root_def startswith_def
        str_def Let_def)

text \<open>
  Counterexample to C4 as stated: a url of 300 letters names no file (no such entry is
  enumerated, and no file system holds a name that long), yet the answer is not 404: the
  existence check raises ENAMETOOLONG before the \<^verbatim>\<open>try\<close> and the handler fails. The same
  happens, with EACCES, for an absolute url below a directory that may not be searched.
\<close>

theorem url_existence_check_counterexample:
  "replicate 300 CHR ''u'' \<noteq> [] \<and>
   [replicate 300 CHR ''u''] \<notin> set (fs_walk example_world) \<and>
   get_tile_by_url_request example_world 1 0 0 ''png'' (Some (replicate 300 CHR ''u'')) =
     ([], Inl (Exception ''[Errno 36] File name too long'')) \<and>
   get_tile_by_url_request example_world 1 0 0 ''png'' (Some ''/root/x.vrt'') =
     ([], Inl (Exception ''[Errno 13] Permission denied''))"
  by (intro conjI; code_simp)

text \<open>
  C5. When a dataset name and a url resolve to the same file, the name-based and the
  path-based tile endpoint make the same calls and return the same response (status,
  media type, headers and body), for every z, x, y and format.
\<close>

theorem name_and_url_tiles_agree:
  assumes "locate W dataset = Inr (Some p)" and "locate_url W url = Inr (Some p)"
  shows "get_tile_by_url W z x y format url = get_tile W dataset z x y format"
  using tile_handlers_located[of W dataset p "get_tile W dataset z x y format" z x y format url]
    tile_handlers_located[of W dataset p "get_tile_by_url W z x y format url" z x y format url]
    assms
  by simp

text \<open>Witness: the dataset \<^verbatim>\<open>a\<close> and the relative url \<^verbatim>\<open>sub/a.vrt\<close>.\<close>

theorem name_and_url_tiles_agree_witness:
  "locate example_world ''a'' = Inr (Some (PurePath ''/'' [''data'', ''sub'', ''a.vrt''])) \<and>
   locate_url example_world ''sub/a.vrt'' = Inr (Some (PurePath ''/'' [''data'', ''sub'', ''a.vrt''])) \<and>
   get_tile_by_url example_world 1 0 0 ''jpeg'' ''sub/a.vrt'' =
     get_tile example_world ''a'' 1 0 0 ''jpeg''"
  using name_and_url_tiles_agree[OF example_a example_url_a, of 1 0 0 "''jpeg''"]
  by (simp add: example_a example_url_a)

text \<open>
  C9 (as amended). The handlers take z, x and y as integers of either sign and make no
  check on them: whenever the dataset or path resolves and the reader opens the file, the
  tile query is made with exactly the x, y and z of the request, at tile size 256.
\<close>

theorem tile_query_coordinates:
  assumes "locate W dataset = Inr (Some p) \<and> out = get_tile W dataset z x y format \<or>
           locate_url W url = Inr (Some p) \<and> out = get_tile_by_url W z x y format url"
      and "Reader_open W (str p) = Inr src"
  shows "take 2 (fst out) = [Open (str p), TileCall x y z 256]"
  unfolding tile_handlers_located[OF assms(1)]
  using assms(2) by (simp add: tile_log_def split: sum.splits)

text \<open>Witness: requests with negative coordinates on both endpoints.\<close>

theorem tile_query_coordinates_witness:
  "locate example_world ''a'' = Inr (Some (PurePath ''/'' [''data'', ''sub'', ''a.vrt''])) \<and>
   Reader_open example_world ''/data/sub/a.vrt'' = Inr ''/data/sub/a.vrt'' \<and>
   take 2 (fst (get_tile example_world ''a'' (- 1) (- 2) (- 3) ''png'')) =
     [Open ''/data/sub/a.vrt'', TileCall (- 2) (- 3) (- 1) 256] \<and>
   locate_url example_world ''sub/a.vrt'' = Inr (Some (PurePath ''/'' [''data'', ''sub'', ''a.vrt''])) \<and>
   take 2 (fst (get_tile_by_url example_world 4 (- 5) 6 ''png'' ''sub/a.vrt'')) =
     [Open ''/data/sub/a.vrt'', TileCall (- 5) 6 4 256]"
  using
    tile_query_coordinates[of example_world "''a''" "PurePath ''/'' [''data'', ''sub'', ''a.vrt'']"
      "get_tile example_world ''a'' (- 1) (- 2) (- 3) ''png''" "- 1" "- 2" "- 3" "''png''" "[]"
      "''/data/sub/a.vrt''"]
    tile_query_coordinates[of example_world "[]" "PurePath ''/'' [''data'', ''sub'', ''a.vrt'']"
      "get_tile_by_url example_world 4 (- 5) 6 ''png'' ''sub/a.vrt''" 4 "- 5" 6 "''png''" "''sub/a.vrt''"
      "''/data/sub/a.vrt''"]
  by (simp add: example_a example_url_a str_a example_open_a)

text \<open>Counterexample to C9 as stated: a request at zoom -1 reaches the tile query and the
  encoder, and is answered 200.\<close>

theorem negative_zoom_counterexample:
  "get_tile example_world ''a'' (- 1) 0 0 ''jpg'' =
     ([Open ''/data/sub/a.vrt'', TileCall 0 0 (- 1) 256, RenderCall ''JPEG'' (Some 85)],
      Inr \<lparr>status_code = 200, content = ''/data/sub/a.vrt:tile:JPEG'', media_type = Some ''image/jpeg'',
           headers = [(''Cache-Control'', ''public, max-age=3600'')]\<rparr>)"
  by code_simp

text \<open>
  C10. The path-based tile endpoint does not keep the file under the root directory: in
  the example world the non-empty relative url \<^verbatim>\<open>../x.vrt\<close> is joined to
  \<^verbatim>\<open>/data/../x.vrt\<close>, which denotes \<^verbatim>\<open>/x.vrt\<close> outside \<^verbatim>\<open>/data\<close>, and the handler opens it
  and serves its tile.
\<close>

theorem url_escapes_root:
  "let url = ''../x.vrt''; p = truediv (DATA_DIR example_world) url in
     url \<noteq> [] \<and> \<not> startswith url ''/'' \<and> ''..'' \<in> set (split_sep CHR ''/'' url) \<and>
     str p = ''/data/../x.vrt'' \<and>
     resolve_dots [] (parts p) = [''x.vrt''] \<and>
     \<not> inside (DATA_DIR example_world) p \<and>
     get_tile_by_url example_world 1 0 0 ''png'' url =
       ([Open ''/data/../x.vrt'', TileCall 0 0 1 256, RenderCall ''PNG'' None],
        Inr \<lparr>status_code = 200, content = ''/data/../x.vrt:tile:PNG'', media_type = Some ''image/png'',
             headers = [(''Cache-Control'', ''public, max-age=3600'')]\<rparr>)"
  unfolding Let_def by (intro conjI; code_simp)

text \<open>
  C7 (as amended). The listing fails exactly when the recursive enumeration of the root
  raises, with that exception; nothing else in it can fail. When the enumeration
  completes, the listing holds one entry for each enumerated \<^verbatim>\<open>.vrt\<close> entry, sorted by the
  derived name (the stem); the sort is stable, so entries of equal name keep their
  enumeration order. With an empty enumeration that completes (an empty or missing root
  directory) the listing is empty. When all derived names are distinct the listing does
  not depend on the enumeration order.
\<close>

theorem listing_sorted_by_name:
  "list_datasets W =
     (case fs_walk_error W of
        Some e \<Rightarrow> Inl e
      | None \<Rightarrow>
          Inr (Dict [(''datasets'',
            JArr (map (dataset_entry (DATA_DIR W)) (sort_key stem (vrt_files W))))])) \<and>
   sorted (map stem (sort_key stem (vrt_files W))) \<and>
   mset (sort_key stem (vrt_files W)) = mset (vrt_files W) \<and>
   filter (\<lambda>v. stem v = k) (sort_key stem (vrt_files W)) = filter (\<lambda>v. stem v = k) (vrt_files W) \<and>
   (fs_walk W = [] \<and> fs_walk_error W = None \<longrightarrow>
      list_datasets W = Inr (Dict [(''datasets'', JArr [])])) \<and>
   (mset walk' = mset (fs_walk W) \<and> distinct (map stem (vrt_files W)) \<longrightarrow>
      list_datasets (W\<lparr>fs_walk := walk'\<rparr>) = list_datasets W)"
proof (intro conjI impI)
  show "list_datasets W =
     (case fs_walk_error W of
        Some e \<Rightarrow> Inl e
      | None \<Rightarrow>
          Inr (Dict [(''datasets'',
            JArr (map (dataset_entry (DATA_DIR W)) (sort_key stem (vrt_files W))))]))"
    by (rule list_datasets_unfold)
  show "sorted (map stem (sort_key stem (vrt_files W)))" by simp
  show "mset (sort_key stem (vrt_files W)) = mset (vrt_files W)" by simp
  show "filter (\<lambda>v. stem v = k) (sort_key stem (vrt_files W)) = filter (\<lambda>v. stem v = k) (vrt_files W)"
    by (rule sort_key_stable)
  show "list_datasets W = Inr (Dict [(''datasets'', JArr [])])"
    if "fs_walk W = [] \<and> fs_walk_error W = None"
    using that by (simp add: list_datasets_unfold vrt_files_def)
  show "list_datasets (W\<lparr>fs_walk := walk'\<rparr>) = list_datasets W"
    if h: "mset walk' = mset (fs_walk W) \<and> distinct (map stem (vrt_files W))"
  proof -
    have "sort_key stem (vrt_files (W\<lparr>fs_walk := walk'\<rparr>)) = sort_key stem (vrt_files W)"
      using h by (intro sort_key_determined vrt_files_mset) simp_all
    then show ?thesis
      by (simp add: list_datasets_unfold DATA_DIR_def split: option.splits)
  qed
qed

text \<open>Witness: the example world, enumerated in another order, and with nothing to
  enumerate.\<close>

theorem listing_sorted_by_name_witness:
  "mset [[''sub'', ''a.vrt''], [''sub''], [''b.vrt'']] = mset (fs_walk example_world) \<and>
   distinct (map stem (vrt_files example_world)) \<and>
   list_datasets (example_world\<lparr>fs_walk := [[''sub'', ''a.vrt''], [''sub''], [''b.vrt'']]\<rparr>) =
     list_datasets example_world \<and>
   list_datasets example_world =
     Inr (Dict [(''datasets'', JArr
       [JObj [(''name'', JStr ''a''), (''path'', JStr ''sub/a.vrt'')],
        JObj [(''name'', JStr ''b''), (''path'', JStr ''b.vrt'')]])]) \<and>
   fs_walk (example_world\<lparr>fs_walk := []\<rparr>) = [] \<and>
   fs_walk_error (example_world\<lparr>fs_walk := []\<rparr>) = None \<and>
   list_datasets (example_world\<lparr>fs_walk := []\<rparr>) = Inr (Dict [(''datasets'', JArr [])])"
proof -
  have m: "mset [[''sub'', ''a.vrt''], [''sub''], [''b.vrt'']] = mset (fs_walk example_world)"
    by (simp add: example_world_def)
  have e1: "list_datasets (example_world\<lparr>fs_walk := [[''sub'', ''a.vrt''], [''sub''], [''b.vrt'']]\<rparr>) =
      list_datasets example_world"
    using listing_sorted_by_name[of example_world "[]" "[[''sub'', ''a.vrt''], [''sub''], [''b.vrt'']]"]
      m example_distinct
    by blast
  have n: "fs_walk (example_world\<lparr>fs_walk := []\<rparr>) = []"
    "fs_walk_error (example_world\<lparr>fs_walk := []\<rparr>) = None"
    by (simp_all add: example_world_def)
  have e2: "list_datasets (example_world\<lparr>fs_walk := []\<rparr>) = Inr (Dict [(''datasets'', JArr [])])"
    using listing_sorted_by_name[of "example_world\<lparr>fs_walk := []\<rparr>" "[]" "[]"] n
    by blast
  show ?thesis
    using m example_distinct e1 e2 n example_listing by simp
qed

text \<open>
  Counterexample to C7 as stated. The same two files \<^verbatim>\<open>p/x.vrt\<close> and \<^verbatim>\<open>q/x.vrt\<close>, of equal
  derived name, enumerated in two orders, give two different listings. And with the root
  below a directory that may not be searched, the enumeration raises and the listing
  fails.
\<close>

theorem listing_order_counterexample:
  "mset [[''p''], [''p'', ''x.vrt''], [''q''], [''q'', ''x.vrt'']] =
   mset [[''q''], [''q'', ''x.vrt''], [''p''], [''p'', ''x.vrt'']] \<and>
   list_datasets (example_world\<lparr>fs_walk := [[''p''], [''p'', ''x.vrt''], [''q''], [''q'', ''x.vrt'']]\<rparr>) =
     Inr (Dict [(''datasets'', JArr
       [JObj [(''name'', JStr ''x''), (''path'', JStr ''p/x.vrt'')],
        JObj [(''name'', JStr ''x''), (''path'', JStr ''q/x.vrt'')]])]) \<and>
   list_datasets (example_world\<lparr>fs_walk := [[''q''], [''q'', ''x.vrt''], [''p''], [''p'', ''x.vrt'']]\<rparr>) =
     Inr (Dict [(''datasets'', JArr
       [JObj [(''name'', JStr ''x''), (''path'', JStr ''q/x.vrt'')],
        JObj [(''name'', JStr ''x''), (''path'', JStr ''p/x.vrt'')]])]) \<and>
   list_datasets locked_world = Inl (Exception ''[Errno 13] Permission denied'')"
proof (intro conjI)
  show "mset [[''p''], [''p'', ''x.vrt''], [''q''], [''q'', ''x.vrt'']] =
        mset [[''q''], [''q'', ''x.vrt''], [''p''], [''p'', ''x.vrt'']]"
    by simp
qed code_simp+

text \<open>
  C6. For a dataset name that resolves to a file the reader opens and describes, the info
  and the bounds endpoint return the same four bounds and the same \<^verbatim>\<open>minzoom\<close> and
  \<^verbatim>\<open>maxzoom\<close>, which are 0 and 22 when the reader's info has no such attribute.
\<close>

theorem info_and_bounds_agree:
  assumes "locate W dataset = Inr (Some p)"
      and "Reader_open W (str p) = Inr src"
      and "Reader_info W src = Inr nfo"
      and "bounds nfo = (b0, b1, b2, b3)"
  shows "field ''bounds'' (dataset_info W dataset) = Some (JArr [JNum b0, JNum b1, JNum b2, JNum b3]) \<and>
         field ''bounds'' (dataset_bounds W dataset) = Some (JArr [JNum b0, JNum b1, JNum b2, JNum b3]) \<and>
         field ''minzoom'' (dataset_info W dataset) =
           Some (JInt (case minzoom nfo of None \<Rightarrow> 0 | Some v \<Rightarrow> v)) \<and>
         field ''minzoom'' (dataset_bounds W dataset) =
           Some (JInt (case minzoom nfo of None \<Rightarrow> 0 | Some v \<Rightarrow> v)) \<and>
         field ''maxzoom'' (dataset_info W dataset) =
           Some (JInt (case maxzoom nfo of None \<Rightarrow> 22 | Some v \<Rightarrow> v)) \<and>
         field ''maxzoom'' (dataset_bounds W dataset) =
           Some (JInt (case maxzoom nfo of None \<Rightarrow> 22 | Some v \<Rightarrow> v))"
  unfolding dataset_info_def dataset_bounds_def resolve_block
  by (simp add: assms info_block[OF assms(2,3)] field_def ret_def json_of_tuple_def getattr_def)

text \<open>Witness: the dataset \<^verbatim>\<open>b\<close>, whose info has a \<^verbatim>\<open>maxzoom\<close> and no \<^verbatim>\<open>minzoom\<close>.\<close>

theorem info_and_bounds_agree_witness:
  "locate example_world ''b'' = Inr (Some (PurePath ''/'' [''data'', ''b.vrt''])) \<and>
   field ''bounds'' (dataset_info example_world ''b'') = Some (JArr [JNum 2, JNum 4, JNum 10, JNum 20]) \<and>
   field ''bounds'' (dataset_bounds example_world ''b'') = Some (JArr [JNum 2, JNum 4, JNum 10, JNum 20]) \<and>
   field ''minzoom'' (dataset_info example_world ''b'') = Some (JInt 0) \<and>
   field ''minzoom'' (dataset_bounds example_world ''b'') = Some (JInt 0) \<and>
   field ''maxzoom'' (dataset_info example_world ''b'') = Some (JInt 18) \<and>
   field ''maxzoom'' (dataset_bounds example_world ''b'') = Some (JInt 18)"
  using info_and_bounds_agree[of example_world "''b''" "PurePath ''/'' [''data'', ''b.vrt'']"
      "''/data/b.vrt''" _ 2 4 10 20, OF example_b _ example_info_b]
  by (simp add: example_b str_b example_open_b)

text \<open>
  C8. For a dataset name that resolves to a file the reader opens and describes, the
  TileJSON endpoint returns a dict whose \<^verbatim>\<open>tilejson\<close> is \<^verbatim>\<open>3.0.0\<close>, whose \<^verbatim>\<open>tiles\<close> holds the
  one template \<^verbatim>\<open>/datasets/<dataset>/tiles/{z}/{x}/{y}.<tile_format>\<close>, whose \<^verbatim>\<open>bounds\<close> are
  the four bounds of the dataset and whose \<^verbatim>\<open>center\<close> is the sum of the two bounds of
  each axis divided by 2 (in the arithmetic of the bounds' numbers), followed by the
  integer 15.
\<close>

theorem tilejson_shape:
  assumes "locate W dataset = Inr (Some p)"
      and "Reader_open W (str p) = Inr src"
      and "Reader_info W src = Inr nfo"
      and "bounds nfo = (b0, b1, b2, b3)"
  shows "fst (tilejson W dataset tile_format) = [Open (str p), InfoCall] \<and>
         field ''tilejson'' (tilejson W dataset tile_format) = Some (JStr ''3.0.0'') \<and>
         field ''name'' (tilejson W dataset tile_format) = Some (JStr dataset) \<and>
         field ''tiles'' (tilejson W dataset tile_format) =
           Some (JArr [JStr (''/datasets/'' @ dataset @ ''/tiles/{z}/{x}/{y}.'' @ tile_format)]) \<and>
         field ''bounds'' (tilejson W dataset tile_format) =
           Some (JArr [JNum b0, JNum b1, JNum b2, JNum b3]) \<and>
         field ''center'' (tilejson W dataset tile_format) =
           Some (JArr [JNum (num_div W (num_add W b0 b2) 2),
                       JNum (num_div W (num_add W b1 b3) 2),
                       JInt 15])"
  unfolding tilejson_def resolve_block
  by (simp add: assms info_block[OF assms(2,3)] field_def ret_def)

text \<open>Witness: the dataset \<^verbatim>\<open>b\<close> with bounds (2, 4, 10, 20), asked for \<^verbatim>\<open>webp\<close>.\<close>

theorem tilejson_shape_witness:
  "locate example_world ''b'' = Inr (Some (PurePath ''/'' [''data'', ''b.vrt''])) \<and>
   fst (tilejson example_world ''b'' ''webp'') = [Open ''/data/b.vrt'', InfoCall] \<and>
   field ''tilejson'' (tilejson example_world ''b'' ''webp'') = Some (JStr ''3.0.0'') \<and>
   field ''tiles'' (tilejson example_world ''b'' ''webp'') =
     Some (JArr [JStr ''/datasets/b/tiles/{z}/{x}/{y}.webp'']) \<and>
   field ''bounds'' (tilejson example_world ''b'' ''webp'') =
     Some (JArr [JNum 2, JNum 4, JNum 10, JNum 20]) \<and>
   field ''center'' (tilejson example_world ''b'' ''webp'') =
     Some (JArr [JNum 6, JNum 12, JInt 15])"
  using tilejson_shape[of example_world "''b''" "PurePath ''/'' [''data'', ''b.vrt'']"
      "''/data/b.vrt''" _ 2 4 10 20 "''webp''", OF example_b _ example_info_b]
  by (simp add: example_b str_b example_open_b example_center)

end
